theory Spec2Isabelle
  imports Complex_Main "HOL-Library.Sublist"
begin

section \<open>The payment relay of \<open>server.js\<close>\<close>

text \<open>
  \<open>server.js\<close> is an Express application with four routes that matter here:
  \<open>POST /api/create-subscription\<close>, \<open>POST /api/cancel-subscription\<close>,
  \<open>POST /webhook\<close> and \<open>GET /api/payment-methods/:userId\<close>. Each handler is a
  straight-line sequence of calls into two SDKs (Stripe, the processor, and Firestore, the
  ledger store) inside one \<open>try\<close>/\<open>catch\<close>.

  The embedding makes the effects explicit.
  \<^item> The Firestore data the handlers touch is a value of type \<open>store\<close>; every write
    returns the new store. Firestore calls fail only where Firestore's contract says so:
    \<open>doc(path)\<close> of a string that is not a document path throws, \<open>update\<close> of a
    document that does not exist rejects with \<open>NOT_FOUND\<close>, and \<open>add\<close> rejects with
    \<open>ALREADY_EXISTS\<close> when the id it drew is taken. Which strings are document paths
    is the Firestore client's decision, and a parameter of the model (\<open>users_doc\<close>).
  \<^item> Stripe is a remote service whose answers the program cannot predict, so the Stripe
    client is a parameter: a record of functions over an arbitrary processor state
    \<open>'p\<close>, each returning either an error (the rejected promise) or the object the
    handler reads. Every call the handler makes is appended, with its outcome, to the
    list \<open>calls\<close>, so that "how many customers were created" is a statement about
    that list.
  \<^item> An exception is a value \<open>Inl e\<close>; the \<open>catch\<close> block of each handler is the
    branch that turns it into the 400 response.
  \<^item> \<open>FieldValue.serverTimestamp()\<close>, \<open>new Date().toISOString()\<close> and the ids the
    Firestore client draws for added documents are read from a \<open>clock\<close> the handler
    receives.
  \<^item> JavaScript numbers are modelled by exact rationals: \<open>amount_paid / 100\<close> is the
    quotient itself, where JavaScript stores the double nearest to it.
  \<^item> Request fields are strings.
  \<^item> An error is a value; the text of its \<open>message\<close>, which the 400 responses carry, is
    not modelled.
\<close>

subsection \<open>Errors and responses\<close>

text \<open>
  What is thrown: an error of the Stripe client (with the message the processor gave), the
  Firestore errors for a string that is not a document path, for the update of a missing
  document and for the creation of an existing one (with the path of the document), a \<open>TypeError\<close> for the read of a property of \<open>null\<close> or
  \<open>undefined\<close> (with the property's name), and the \<open>SyntaxError\<close> of \<open>JSON.parse\<close>.
\<close>

datatype error =
    StripeError string
  | InvalidPath string
  | NotFound "string list"
  | AlreadyExists "string list"
  | TypeError string
  | SyntaxError string

text \<open>
  The bodies the handlers send. \<open>SubscriptionCreated\<close> is
  \<open>res.json({success: true, subscriptionId, customerId, clientSecret, status})\<close>,
  \<open>CancelScheduled\<close> is \<open>res.json({success: true, message: ...})\<close>,
  \<open>Received\<close> is \<open>res.json({received: true})\<close>,
  \<open>NoPaymentMethods\<close> is \<open>res.json({paymentMethods: []})\<close>,
  \<open>PaymentMethods\<close> is \<open>res.json({success: true, paymentMethods: ...})\<close> (the ids of the listed objects),
  \<open>Failure err\<close> is \<open>res.status(400).json({success: false, error: err.message})\<close> and
  \<open>WebhookError err\<close> is \<open>res.status(400).send(`Webhook Error: ${err.message}`)\<close>.
\<close>

datatype response =
    SubscriptionCreated string string "string option" string
  | CancelScheduled
  | Received
  | NoPaymentMethods
  | PaymentMethods "string list"
  | Failure error
  | WebhookError error

fun is_error_response :: "response \<Rightarrow> bool" where
  "is_error_response (Failure err) = True"
| "is_error_response (WebhookError err) = True"
| "is_error_response r = False"

subsection \<open>The ledger store (Firestore)\<close>

type_synonym timestamp = nat

text \<open>
  What the handling of one request reads from its environment: the timestamp the
  Firestore server puts for \<open>FieldValue.serverTimestamp()\<close>, the date of
  \<open>new Date().toISOString()\<close>, and the ids the Firestore client draws (\<open>autoId()\<close>) for
  the document of \<open>payment_methods\<close> and the document of \<open>payment_logs\<close> it adds.
\<close>

record clock =
  serverTimestamp :: timestamp
  toISOString :: string
  cardAutoId :: string
  logAutoId :: string

record payment_entry =
  date :: string
  amount :: rat
  invoiceId :: string

text \<open>
  A document of the collection \<open>users\<close>, with the fields the handlers read or write; a
  field the document does not have is \<open>None\<close> (for \<open>paymentHistory\<close>, the empty
  list: \<open>arrayUnion\<close> on a missing field starts from the empty array).
\<close>

record user_doc =
  stripeCustomerId :: "string option"
  subscriptionId :: "string option"
  subscriptionStatus :: "string option"
  subscriptionUpdatedAt :: "timestamp option"
  cancelAtPeriodEnd :: "bool option"
  updatedAt :: "timestamp option"
  lastPayment :: "timestamp option"
  paymentHistory :: "payment_entry list"
  subscriptionEndedAt :: "timestamp option"

record saved_card =
  card_paymentMethodId :: string
  card_brand :: string
  card_last4 :: string
  card_expMonth :: nat
  card_expYear :: nat
  card_isDefault :: bool
  card_createdAt :: timestamp

record payment_log =
  log_userId :: string
  log_customerId :: string
  log_subscriptionId :: string
  log_amount :: rat
  log_currency :: string
  log_status :: string
  log_timestamp :: timestamp

text \<open>
  A document in a sub-collection below \<open>users\<close>, such as a saved card in
  \<open>users/{id}/payment_methods\<close>: the fields of a user document it has (a request can
  name any document by a \<open>userId\<close> with slashes), and the card fields when it is a
  saved card.
\<close>

record sub_doc =
  user_fields :: user_doc
  card_fields :: "saved_card option"

text \<open>
  The store: the documents of \<open>users\<close> by id, in the order in which a query returns
  them; the documents of the sub-collections below \<open>users\<close>, by their path relative to
  \<open>users\<close> (three segments or more: \<open>[id, ''payment_methods'', cardId]\<close> is a saved
  card); the documents of \<open>payment_logs\<close> by id. Document ids are unique in the
  collection \<open>users\<close>, which is \<open>wf_store\<close>.
\<close>

record store =
  users :: "(string \<times> user_doc) list"
  sub_docs :: "(string list \<times> sub_doc) list"
  payment_logs :: "(string \<times> payment_log) list"

definition wf_store :: "store \<Rightarrow> bool" where
  "wf_store s = distinct (map fst (users s))"

text \<open>\<open>db.collection('users').doc(id).get()\<close>: \<open>None\<close> is a snapshot with \<open>exists = false\<close>.\<close>

definition doc_get :: "store \<Rightarrow> string \<Rightarrow> user_doc option" where
  "doc_get s k = map_of (users s) k"

fun update_user :: "string \<Rightarrow> (user_doc \<Rightarrow> user_doc) \<Rightarrow> (string \<times> user_doc) list \<Rightarrow> (string \<times> user_doc) list" where
  "update_user k f [] = []"
| "update_user k f ((k', d) # ds) =
     (if k = k' then (k', f d) # ds else (k', d) # update_user k f ds)"

text \<open>
  \<open>ref.update({...})\<close>: the field changes are the function \<open>f\<close>. The promise rejects,
  and nothing is written, when the document does not exist.
\<close>

definition doc_update :: "string \<Rightarrow> (user_doc \<Rightarrow> user_doc) \<Rightarrow> store \<Rightarrow> error + store" where
  "doc_update k f s =
     (case doc_get s k of
        None \<Rightarrow> Inl (NotFound [k])
      | Some d \<Rightarrow> Inr (s\<lparr>users := update_user k f (users s)\<rparr>))"

text \<open>
  A document reference made by \<open>db.collection('users').doc(userId)\<close> is the path of the
  document relative to \<open>users\<close>: \<open>[id]\<close> for a document of \<open>users\<close>, a longer path
  for a document in a sub-collection. \<open>ref_get\<close> is \<open>get()\<close> on it, with the fields
  of a user document that the snapshot has (\<open>None\<close>: \<open>exists = false\<close>), and
  \<open>ref_update\<close> is \<open>update({...})\<close> on it.
\<close>

fun update_sub :: "string list \<Rightarrow> (user_doc \<Rightarrow> user_doc) \<Rightarrow> (string list \<times> sub_doc) list \<Rightarrow> (string list \<times> sub_doc) list" where
  "update_sub p f [] = []"
| "update_sub p f ((q, d) # ds) =
     (if p = q then (q, d\<lparr>user_fields := f (user_fields d)\<rparr>) # ds else (q, d) # update_sub p f ds)"

fun ref_get :: "store \<Rightarrow> string list \<Rightarrow> user_doc option" where
  "ref_get s [k] = doc_get s k"
| "ref_get s p = map_option user_fields (map_of (sub_docs s) p)"

fun ref_update :: "string list \<Rightarrow> (user_doc \<Rightarrow> user_doc) \<Rightarrow> store \<Rightarrow> error + store" where
  "ref_update [k] f s = doc_update k f s"
| "ref_update p f s =
     (case map_of (sub_docs s) p of
        None \<Rightarrow> Inl (NotFound p)
      | Some d \<Rightarrow> Inr (s\<lparr>sub_docs := update_sub p f (sub_docs s)\<rparr>))"

text \<open>The fields of a user document that a document without any of them has.\<close>

definition no_fields :: user_doc where
  "no_fields =
     \<lparr>stripeCustomerId = None, subscriptionId = None, subscriptionStatus = None,
      subscriptionUpdatedAt = None, cancelAtPeriodEnd = None, updatedAt = None,
      lastPayment = None, paymentHistory = [], subscriptionEndedAt = None\<rparr>"

text \<open>
  \<open>ref.collection('payment_methods').add(card)\<close> and
  \<open>db.collection('payment_logs').add(entry)\<close>: \<open>add\<close> creates the document under the id
  the client drew, and rejects, writing nothing, when a document has that id already.
\<close>

definition add_payment_method :: "string list \<Rightarrow> string \<Rightarrow> saved_card \<Rightarrow> store \<Rightarrow> error + store" where
  "add_payment_method ref autoId c s =
     (let p = ref @ [''payment_methods'', autoId]
      in case map_of (sub_docs s) p of
           Some d \<Rightarrow> Inl (AlreadyExists p)
         | None \<Rightarrow>
             Inr (s\<lparr>sub_docs := sub_docs s @ [(p, \<lparr>user_fields = no_fields, card_fields = Some c\<rparr>)]\<rparr>))"

definition add_payment_log :: "string \<Rightarrow> payment_log \<Rightarrow> store \<Rightarrow> error + store" where
  "add_payment_log autoId entry s =
     (case map_of (payment_logs s) autoId of
        Some e \<Rightarrow> Inl (AlreadyExists [''payment_logs'', autoId])
      | None \<Rightarrow> Inr (s\<lparr>payment_logs := payment_logs s @ [(autoId, entry)]\<rparr>))"

text \<open>\<open>db.collection('users').where('stripeCustomerId', '==', c).get()\<close>: the matching documents, in order.\<close>

definition where_stripeCustomerId :: "store \<Rightarrow> string \<Rightarrow> (string \<times> user_doc) list" where
  "where_stripeCustomerId s c = filter (\<lambda>(k, d). stripeCustomerId d = Some c) (users s)"

text \<open>\<open>FieldValue.arrayUnion(e)\<close>: the element is added at the end unless the array already holds an equal one.\<close>

definition arrayUnion :: "'a \<Rightarrow> 'a list \<Rightarrow> 'a list" where
  "arrayUnion e xs = (if e \<in> set xs then xs else xs @ [e])"

subsection \<open>The processor (Stripe)\<close>

record customer =
  customer_id :: string

record payment_intent =
  client_secret :: "string option"

record invoice =
  payment_intent :: "payment_intent option"

record subscription =
  subscription_id :: string
  status :: string
  latest_invoice :: "invoice option"

record card =
  brand :: string
  last4 :: string
  exp_month :: nat
  exp_year :: nat

record payment_method =
  payment_method_id :: string
  pm_card :: "card option"

text \<open>The object of a webhook event, \<open>event.data.object\<close>: an invoice or a subscription.\<close>

record event_object =
  object_id :: string
  object_customer :: string
  amount_paid :: int

record event =
  event_type :: string
  data_object :: event_object

text \<open>
  The calls of the Stripe client the handlers make, with the arguments they pass:
  \<open>Customers_create email name payment_method userId\<close>,
  \<open>PaymentMethods_attach paymentMethodId customer\<close>,
  \<open>Customers_update customer default_payment_method\<close>,
  \<open>Subscriptions_create customer price userId\<close>,
  \<open>Subscriptions_update subscriptionId cancel_at_period_end\<close>,
  \<open>PaymentMethods_list customer\<close>.
\<close>

datatype stripe_call =
    Customers_retrieve string
  | Customers_create string string string string
  | PaymentMethods_attach string string
  | Customers_update string string
  | Subscriptions_create string string string
  | PaymentMethods_retrieve string
  | Subscriptions_update string bool
  | PaymentMethods_list string

record 'p stripe =
  customers_retrieve :: "string \<Rightarrow> 'p \<Rightarrow> (error + customer) \<times> 'p"
  customers_create :: "string \<Rightarrow> string \<Rightarrow> string \<Rightarrow> string \<Rightarrow> 'p \<Rightarrow> (error + customer) \<times> 'p"
  paymentMethods_attach :: "string \<Rightarrow> string \<Rightarrow> 'p \<Rightarrow> (error + unit) \<times> 'p"
  customers_update :: "string \<Rightarrow> string \<Rightarrow> 'p \<Rightarrow> (error + unit) \<times> 'p"
  subscriptions_create :: "string \<Rightarrow> string \<Rightarrow> string \<Rightarrow> 'p \<Rightarrow> (error + subscription) \<times> 'p"
  paymentMethods_retrieve :: "string \<Rightarrow> 'p \<Rightarrow> (error + payment_method) \<times> 'p"
  subscriptions_update :: "string \<Rightarrow> bool \<Rightarrow> 'p \<Rightarrow> (error + subscription) \<times> 'p"
  paymentMethods_list :: "string \<Rightarrow> 'p \<Rightarrow> (error + payment_method list) \<times> 'p"
  webhooks_constructEvent :: "string \<Rightarrow> string \<Rightarrow> string \<Rightarrow> error + event"

text \<open>What a handler runs in: the ledger store, the processor's state, and the calls made so far.\<close>

record 'p world =
  ledger :: store
  remote :: 'p
  calls :: "(stripe_call \<times> bool) list"

fun succeeded :: "error + 'a \<Rightarrow> bool" where
  "succeeded (Inl e) = False"
| "succeeded (Inr v) = True"

definition invoke :: "stripe_call \<Rightarrow> ('p \<Rightarrow> (error + 'a) \<times> 'p) \<Rightarrow> 'p world \<Rightarrow> (error + 'a) \<times> 'p world" where
  "invoke c f w =
     (case f (remote w) of
        (r, p') \<Rightarrow> (r, w\<lparr>remote := p', calls := calls w @ [(c, succeeded r)]\<rparr>))"

text \<open>
  How many customers, and how many subscriptions, the processor created among the calls of
  a list of calls: the \<open>customers.create\<close> and \<open>subscriptions.create\<close> calls that succeeded.
\<close>

fun is_customers_create :: "stripe_call \<Rightarrow> bool" where
  "is_customers_create (Customers_create email name pm uid) = True"
| "is_customers_create c = False"

fun is_subscriptions_create :: "stripe_call \<Rightarrow> bool" where
  "is_subscriptions_create (Subscriptions_create c price uid) = True"
| "is_subscriptions_create c = False"

definition customers_created :: "(stripe_call \<times> bool) list \<Rightarrow> nat" where
  "customers_created cs = length (filter (\<lambda>(c, ok). is_customers_create c \<and> ok) cs)"

definition subscriptions_created :: "(stripe_call \<times> bool) list \<Rightarrow> nat" where
  "subscriptions_created cs = length (filter (\<lambda>(c, ok). is_subscriptions_create c \<and> ok) cs)"

text \<open>JavaScript truthiness of a string that may be missing: \<open>undefined\<close>, \<open>null\<close> and \<open>''\<close> are falsy.\<close>

fun truthy :: "string option \<Rightarrow> bool" where
  "truthy None = False"
| "truthy (Some s) = (s \<noteq> [])"

text \<open>
  Two worlds with the same store, the same processor state and the same sequence of
  processor calls, whatever the outcomes recorded for the calls.
\<close>

definition same_effects :: "'p world \<Rightarrow> 'p world \<Rightarrow> bool" where
  "same_effects w v = (ledger w = ledger v \<and> remote w = remote v \<and> map fst (calls w) = map fst (calls v))"

subsection \<open>\<open>POST /webhook\<close>\<close>

text \<open>
  Lines 235 to 243: with a webhook secret, \<open>stripe.webhooks.constructEvent\<close> verifies
  the signature and decodes the body, or throws; without one, \<open>JSON.parse\<close> decodes it.
\<close>

definition decode_event :: "'p stripe \<Rightarrow> (string \<Rightarrow> error + event) \<Rightarrow> string option \<Rightarrow> string \<Rightarrow> string \<Rightarrow> error + event" where
  "decode_event P JSON_parse webhookSecret body sig =
     (case webhookSecret of
        None \<Rightarrow> JSON_parse body
      | Some secret \<Rightarrow>
          if secret \<noteq> [] then webhooks_constructEvent P body sig secret
          else JSON_parse body)"

text \<open>Lines 248 to 293: the \<open>switch\<close> on \<open>event.type\<close>.\<close>

definition dispatch_event :: "clock \<Rightarrow> event \<Rightarrow> store \<Rightarrow> error + store" where
  "dispatch_event clk ev s =
     (if event_type ev = ''invoice.payment_succeeded'' then
        (let invoice = data_object ev;
             customerId = object_customer invoice
         in case where_stripeCustomerId s customerId of
              [] \<Rightarrow> Inr s
            | (k, d) # rest \<Rightarrow>
                doc_update k
                  (\<lambda>u. u\<lparr>subscriptionStatus := Some ''active'',
                         lastPayment := Some (serverTimestamp clk),
                         paymentHistory :=
                           arrayUnion
                             \<lparr>date = toISOString clk,
                              amount = of_int (amount_paid invoice) / 100,
                              invoiceId = object_id invoice\<rparr>
                             (paymentHistory u)\<rparr>) s)
      else if event_type ev = ''invoice.payment_failed'' then Inr s
      else if event_type ev = ''customer.subscription.deleted'' then
        (let subscription = data_object ev
         in case where_stripeCustomerId s (object_customer subscription) of
              [] \<Rightarrow> Inr s
            | (k, d) # rest \<Rightarrow>
                doc_update k
                  (\<lambda>u. u\<lparr>subscriptionStatus := Some ''cancelled'',
                         subscriptionEndedAt := Some (serverTimestamp clk)\<rparr>) s)
      else Inr s)"

definition webhook :: "'p stripe \<Rightarrow> (string \<Rightarrow> error + event) \<Rightarrow> string option \<Rightarrow> clock \<Rightarrow> string \<Rightarrow> string \<Rightarrow> store \<Rightarrow> response \<times> store" where
  "webhook P JSON_parse webhookSecret clk body sig s =
     (case decode_event P JSON_parse webhookSecret body sig of
        Inl err \<Rightarrow> (WebhookError err, s)
      | Inr ev \<Rightarrow>
          (case dispatch_event clk ev s of
             Inl err \<Rightarrow> (WebhookError err, s)
           | Inr s' \<Rightarrow> (Received, s')))"

subsection \<open>\<open>POST /api/create-subscription\<close>\<close>

record create_body =
  paymentMethodId :: string
  priceId :: string
  userId :: string
  saveCard :: bool
  userEmail :: string
  userName :: string

text \<open>
  \<open>db.collection('users').doc(userId)\<close>, at lines 77, 146, 159, 210 and 309, is the
  parameter \<open>users_doc\<close> of the handlers: for a string the Firestore client refuses
  (the empty string, for one) it is the error thrown, at \<open>doc\<close> or by the first call on
  the reference; otherwise it is the reference. A handler that makes the reference of the
  same \<open>userId\<close> again gets the same reference, so the model makes it once.
\<close>

text \<open>Lines 88 to 96 and 101 to 109: \<open>stripe.customers.create\<close>, written twice in the source.\<close>

definition create_customer :: "'p stripe \<Rightarrow> create_body \<Rightarrow> 'p world \<Rightarrow> (error + customer) \<times> 'p world" where
  "create_customer P b w =
     invoke (Customers_create (userEmail b) (userName b) (paymentMethodId b) (userId b))
       (customers_create P (userEmail b) (userName b) (paymentMethodId b) (userId b)) w"

text \<open>
  Step 1, lines 77 to 110, for the reference \<open>ref\<close> of the user's document: the customer
  id of the document, when the document exists and the id is truthy, is retrieved; when
  the retrieval throws, or there is no such id, a customer is created.
\<close>

definition resolve_customer :: "'p stripe \<Rightarrow> string list \<Rightarrow> create_body \<Rightarrow> 'p world \<Rightarrow> (error + customer) \<times> 'p world" where
  "resolve_customer P ref b w =
     (let userDoc = ref_get (ledger w) ref;
          existingCustomerId = (case userDoc of None \<Rightarrow> None | Some d \<Rightarrow> stripeCustomerId d)
      in case existingCustomerId of
           None \<Rightarrow> create_customer P b w
         | Some c \<Rightarrow>
             if truthy (Some c) then
               (case invoke (Customers_retrieve c) (customers_retrieve P c) w of
                  (Inr customer, w') \<Rightarrow> (Inr customer, w')
                | (Inl err, w') \<Rightarrow> create_customer P b w')
             else create_customer P b w)"

text \<open>
  Step 5, line 143: \<open>subscription.latest_invoice.payment_intent.client_secret\<close>. Reading a
  property of \<open>null\<close> throws a \<open>TypeError\<close>; a missing \<open>client_secret\<close> is
  \<open>undefined\<close> and does not throw.
\<close>

definition get_client_secret :: "subscription \<Rightarrow> error + string option" where
  "get_client_secret sub =
     (case latest_invoice sub of
        None \<Rightarrow> Inl (TypeError ''payment_intent'')
      | Some latest \<Rightarrow>
          (case payment_intent latest of
             None \<Rightarrow> Inl (TypeError ''client_secret'')
           | Some intent \<Rightarrow> Inr (client_secret intent)))"

text \<open>Step 7, lines 154 to 168: the card is saved when the client asked for it.\<close>

definition save_card :: "'p stripe \<Rightarrow> clock \<Rightarrow> string list \<Rightarrow> create_body \<Rightarrow> 'p world \<Rightarrow> (error + unit) \<times> 'p world" where
  "save_card P clk ref b w =
     (if saveCard b then
        (case invoke (PaymentMethods_retrieve (paymentMethodId b))
                (paymentMethods_retrieve P (paymentMethodId b)) w of
           (Inl err, w') \<Rightarrow> (Inl err, w')
         | (Inr paymentMethod, w') \<Rightarrow>
             (case pm_card paymentMethod of
                None \<Rightarrow> (Inl (TypeError ''brand''), w')
              | Some c \<Rightarrow>
                  (case add_payment_method ref (cardAutoId clk)
                          \<lparr>card_paymentMethodId = paymentMethodId b,
                           card_brand = brand c,
                           card_last4 = last4 c,
                           card_expMonth = exp_month c,
                           card_expYear = exp_year c,
                           card_isDefault = True,
                           card_createdAt = serverTimestamp clk\<rparr> (ledger w') of
                     Inl err \<Rightarrow> (Inl err, w')
                   | Inr s' \<Rightarrow> (Inr (), w'\<lparr>ledger := s'\<rparr>))))
      else (Inr (), w))"

text \<open>
  Steps 6 to 9, lines 145 to 188, once the subscription is there: the user's document is
  updated, the card saved, the payment logged and the success body sent. The first
  throw ends the sequence; what was written before it stays.
\<close>

definition persist_subscription :: "'p stripe \<Rightarrow> clock \<Rightarrow> string list \<Rightarrow> create_body \<Rightarrow> customer \<Rightarrow> subscription \<Rightarrow> string option \<Rightarrow> 'p world \<Rightarrow> response \<times> 'p world" where
  "persist_subscription P clk ref b customer sub clientSecret w =
     (case ref_update ref
             (\<lambda>u. u\<lparr>stripeCustomerId := Some (customer_id customer),
                    subscriptionId := Some (subscription_id sub),
                    subscriptionStatus := Some (status sub),
                    subscriptionUpdatedAt := Some (serverTimestamp clk)\<rparr>) (ledger w) of
        Inl err \<Rightarrow> (Failure err, w)
      | Inr s' \<Rightarrow>
          (case save_card P clk ref b (w\<lparr>ledger := s'\<rparr>) of
             (Inl err, w') \<Rightarrow> (Failure err, w')
           | (Inr u, w') \<Rightarrow>
               (case add_payment_log (logAutoId clk)
                       \<lparr>log_userId = userId b,
                        log_customerId = customer_id customer,
                        log_subscriptionId = subscription_id sub,
                        log_amount = 999 / 100,
                        log_currency = ''cad'',
                        log_status = status sub,
                        log_timestamp = serverTimestamp clk\<rparr> (ledger w') of
                  Inl err \<Rightarrow> (Failure err, w')
                | Inr s'' \<Rightarrow>
                    (SubscriptionCreated (subscription_id sub) (customer_id customer) clientSecret (status sub),
                     w'\<lparr>ledger := s''\<rparr>))))"

text \<open>
  Steps 3 to 5, lines 123 to 143, for the resolved customer: make the payment method the
  default, create the subscription and read the client secret.
\<close>

definition set_default_and_subscribe :: "'p stripe \<Rightarrow> clock \<Rightarrow> string list \<Rightarrow> create_body \<Rightarrow> customer \<Rightarrow> 'p world \<Rightarrow> response \<times> 'p world" where
  "set_default_and_subscribe P clk ref b customer w =
     (case invoke (Customers_update (customer_id customer) (paymentMethodId b))
             (customers_update P (customer_id customer) (paymentMethodId b)) w of
        (Inl err, w2) \<Rightarrow> (Failure err, w2)
      | (Inr u, w2) \<Rightarrow>
          (case invoke (Subscriptions_create (customer_id customer) (priceId b) (userId b))
                  (subscriptions_create P (customer_id customer) (priceId b) (userId b)) w2 of
             (Inl err, w3) \<Rightarrow> (Failure err, w3)
           | (Inr sub, w3) \<Rightarrow>
               (case get_client_secret sub of
                  Inl err \<Rightarrow> (Failure err, w3)
                | Inr clientSecret \<Rightarrow>
                    persist_subscription P clk ref b customer sub clientSecret w3)))"

text \<open>
  Step 2, lines 112 to 121, and what follows it: the payment method is attached; the
  \<open>catch\<close> of lines 118 to 121 only logs, whatever was thrown, and the handler goes on.
\<close>

definition subscribe_customer :: "'p stripe \<Rightarrow> clock \<Rightarrow> string list \<Rightarrow> create_body \<Rightarrow> customer \<Rightarrow> 'p world \<Rightarrow> response \<times> 'p world" where
  "subscribe_customer P clk ref b customer w =
     (case invoke (PaymentMethods_attach (paymentMethodId b) (customer_id customer))
             (paymentMethods_attach P (paymentMethodId b) (customer_id customer)) w of
        (attached, w1) \<Rightarrow> set_default_and_subscribe P clk ref b customer w1)"

text \<open>The handler: the \<open>try\<close> block of lines 67 to 189 and the \<open>catch\<close> of lines 190 to 196.\<close>

definition create_subscription :: "'p stripe \<Rightarrow> (string \<Rightarrow> error + string list) \<Rightarrow> clock \<Rightarrow> create_body \<Rightarrow> 'p world \<Rightarrow> response \<times> 'p world" where
  "create_subscription P users_doc clk b w =
     (case users_doc (userId b) of
        Inl err \<Rightarrow> (Failure err, w)
      | Inr ref \<Rightarrow>
          (case resolve_customer P ref b w of
             (Inl err, w') \<Rightarrow> (Failure err, w')
           | (Inr customer, w') \<Rightarrow> subscribe_customer P clk ref b customer w'))"

subsection \<open>\<open>POST /api/cancel-subscription\<close>\<close>

record cancel_body =
  cancel_subscriptionId :: string
  cancel_userId :: string

text \<open>The field changes of lines 210 to 214.\<close>

definition canceling :: "clock \<Rightarrow> user_doc \<Rightarrow> user_doc" where
  "canceling clk u =
     u\<lparr>subscriptionStatus := Some ''canceling'',
       cancelAtPeriodEnd := Some True,
       updatedAt := Some (serverTimestamp clk)\<rparr>"

text \<open>
  Lines 200 to 228: the processor is updated first; the reference of the user's document
  is made, and the document updated, after that.
\<close>

definition cancel_subscription :: "'p stripe \<Rightarrow> (string \<Rightarrow> error + string list) \<Rightarrow> clock \<Rightarrow> cancel_body \<Rightarrow> 'p world \<Rightarrow> response \<times> 'p world" where
  "cancel_subscription P users_doc clk b w =
     (case invoke (Subscriptions_update (cancel_subscriptionId b) True)
             (subscriptions_update P (cancel_subscriptionId b) True) w of
        (Inl err, w') \<Rightarrow> (Failure err, w')
      | (Inr sub, w') \<Rightarrow>
          (case users_doc (cancel_userId b) of
             Inl err \<Rightarrow> (Failure err, w')
           | Inr ref \<Rightarrow>
               (case ref_update ref (canceling clk) (ledger w') of
                  Inl err \<Rightarrow> (Failure err, w')
                | Inr s' \<Rightarrow> (CancelScheduled, w'\<lparr>ledger := s'\<rparr>))))"

subsection \<open>\<open>GET /api/payment-methods/:userId\<close>\<close>

definition list_payment_methods :: "'p stripe \<Rightarrow> (string \<Rightarrow> error + string list) \<Rightarrow> string \<Rightarrow> 'p world \<Rightarrow> response \<times> 'p world" where
  "list_payment_methods P users_doc uid w =
     (case users_doc uid of
        Inl err \<Rightarrow> (Failure err, w)
      | Inr ref \<Rightarrow>
          (let userDoc = ref_get (ledger w) ref;
               customerId = (case userDoc of None \<Rightarrow> None | Some d \<Rightarrow> stripeCustomerId d)
           in case customerId of
                None \<Rightarrow> (NoPaymentMethods, w)
              | Some c \<Rightarrow>
                  if truthy (Some c) then
                    (case invoke (PaymentMethods_list c) (paymentMethods_list P c) w of
                       (Inl err, w') \<Rightarrow> (Failure err, w')
                     | (Inr pms, w') \<Rightarrow> (PaymentMethods (map payment_method_id pms), w'))
                  else (NoPaymentMethods, w)))"

subsection \<open>The system: one request at a time\<close>

text \<open>
  The operations of the service and the effect of one of them on the world. The Stripe
  client, the Firestore client's \<open>doc\<close>, the webhook secret and \<open>JSON.parse\<close> are fixed
  for the process; each request comes with the clock reading of its handling.
\<close>

datatype request =
    CreateSubscription create_body
  | CancelSubscription cancel_body
  | Webhook string string
  | ListPaymentMethods string

fun handle :: "'p stripe \<Rightarrow> (string \<Rightarrow> error + string list) \<Rightarrow> (string \<Rightarrow> error + event) \<Rightarrow> string option \<Rightarrow> clock \<Rightarrow> request \<Rightarrow> 'p world \<Rightarrow> response \<times> 'p world" where
  "handle P users_doc JSON_parse webhookSecret clk (CreateSubscription b) w = create_subscription P users_doc clk b w"
| "handle P users_doc JSON_parse webhookSecret clk (CancelSubscription b) w = cancel_subscription P users_doc clk b w"
| "handle P users_doc JSON_parse webhookSecret clk (Webhook body sig) w =
     (case webhook P JSON_parse webhookSecret clk body sig (ledger w) of
        (r, s') \<Rightarrow> (r, w\<lparr>ledger := s'\<rparr>))"
| "handle P users_doc JSON_parse webhookSecret clk (ListPaymentMethods uid) w = list_payment_methods P users_doc uid w"

text \<open>
  The store \<open>s'\<close> has the documents of \<open>s\<close>, in the same order and under the same
  ids, and the payment history of each starts with the history it had in \<open>s\<close>.
\<close>

definition history_extended :: "store \<Rightarrow> store \<Rightarrow> bool" where
  "history_extended s s' =
     list_all2 (\<lambda>(k, d) (k', d'). k = k' \<and> prefix (paymentHistory d) (paymentHistory d'))
       (users s) (users s')"

text \<open>
  A sequence of requests, each with the clock reading of its handling, served one after
  the other.
\<close>

fun serve :: "'p stripe \<Rightarrow> (string \<Rightarrow> error + string list) \<Rightarrow> (string \<Rightarrow> error + event) \<Rightarrow> string option \<Rightarrow> (clock \<times> request) list \<Rightarrow> 'p world \<Rightarrow> 'p world" where
  "serve P users_doc JSON_parse webhookSecret [] w = w"
| "serve P users_doc JSON_parse webhookSecret ((clk, req) # rest) w =
     serve P users_doc JSON_parse webhookSecret rest (snd (handle P users_doc JSON_parse webhookSecret clk req w))"

subsection \<open>A sample deployment\<close>

text \<open>
  Concrete values on which the handlers are run below: a processor that accepts every
  call and knows the customer \<open>cus_1\<close>, a decoder for four request bodies, a signature
  check that accepts the signature equal to the secret, a \<open>doc\<close> with the checks of
  the Node client of Firestore, and a store with two users.
\<close>

text \<open>
  \<open>client_doc\<close> refuses the empty string and a string with \<open>//\<close>, splits the string at
  the slashes, drops the empty segments, and refuses an even number of segments (a path
  that, after \<open>users\<close>, does not name a document).
\<close>

fun split_slash :: "string \<Rightarrow> string list" where
  "split_slash [] = [[]]"
| "split_slash (c # cs) =
     (if c = CHR ''/'' then [] # split_slash cs
      else (case split_slash cs of [] \<Rightarrow> [[c]] | seg # segs \<Rightarrow> (c # seg) # segs))"

fun has_double_slash :: "string \<Rightarrow> bool" where
  "has_double_slash (a # b # cs) = ((a = CHR ''/'' \<and> b = CHR ''/'') \<or> has_double_slash (b # cs))"
| "has_double_slash cs = False"

definition client_doc :: "string \<Rightarrow> error + string list" where
  "client_doc path =
     (if path = [] \<or> has_double_slash path then Inl (InvalidPath path)
      else (let segments = filter (\<lambda>seg. seg \<noteq> []) (split_slash path)
            in if even (length segments) then Inl (InvalidPath path) else Inr segments))"

definition paid_event :: event where
  "paid_event =
     \<lparr>event_type = ''invoice.payment_succeeded'',
      data_object = \<lparr>object_id = ''in_1'', object_customer = ''cus_1'', amount_paid = 999\<rparr>\<rparr>"

definition deleted_event :: event where
  "deleted_event =
     \<lparr>event_type = ''customer.subscription.deleted'',
      data_object = \<lparr>object_id = ''sub_1'', object_customer = ''cus_1'', amount_paid = 0\<rparr>\<rparr>"

definition stranger_paid_event :: event where
  "stranger_paid_event =
     \<lparr>event_type = ''invoice.payment_succeeded'',
      data_object = \<lparr>object_id = ''in_2'', object_customer = ''cus_9'', amount_paid = 500\<rparr>\<rparr>"

definition stranger_deleted_event :: event where
  "stranger_deleted_event =
     \<lparr>event_type = ''customer.subscription.deleted'',
      data_object = \<lparr>object_id = ''sub_2'', object_customer = ''cus_9'', amount_paid = 0\<rparr>\<rparr>"

definition sample_decode :: "string \<Rightarrow> error + event" where
  "sample_decode body =
     (if body = ''paid'' then Inr paid_event
      else if body = ''deleted'' then Inr deleted_event
      else if body = ''paid 9'' then Inr stranger_paid_event
      else if body = ''deleted 9'' then Inr stranger_deleted_event
      else Inl (SyntaxError ''Unexpected token''))"

definition sample_subscription :: subscription where
  "sample_subscription =
     \<lparr>subscription_id = ''sub_1'', status = ''incomplete'',
      latest_invoice = Some \<lparr>payment_intent = Some \<lparr>client_secret = Some ''pi_1_secret''\<rparr>\<rparr>\<rparr>"

definition sample_stripe :: "nat stripe" where
  "sample_stripe =
     \<lparr>customers_retrieve = (\<lambda>c n.
        (if c = ''cus_1'' then Inr \<lparr>customer_id = c\<rparr> else Inl (StripeError ''No such customer''), n)),
      customers_create = (\<lambda>email name pm uid n. (Inr \<lparr>customer_id = ''cus_2''\<rparr>, Suc n)),
      paymentMethods_attach = (\<lambda>pm c n. (Inr (), n)),
      customers_update = (\<lambda>c pm n. (Inr (), n)),
      subscriptions_create = (\<lambda>c price uid n. (Inr sample_subscription, Suc n)),
      paymentMethods_retrieve = (\<lambda>pm n.
        (Inr \<lparr>payment_method_id = pm,
              pm_card = Some \<lparr>brand = ''visa'', last4 = ''4242'', exp_month = 12, exp_year = 2030\<rparr>\<rparr>, n)),
      subscriptions_update = (\<lambda>sid flag n. (Inr sample_subscription, n)),
      paymentMethods_list = (\<lambda>c n. (Inr [], n)),
      webhooks_constructEvent = (\<lambda>body sig secret.
        if sig = secret then sample_decode body
        else Inl (StripeError ''No signatures found matching the expected signature for payload''))\<rparr>"

definition blank_user :: user_doc where
  "blank_user =
     \<lparr>stripeCustomerId = None, subscriptionId = None, subscriptionStatus = None,
      subscriptionUpdatedAt = None, cancelAtPeriodEnd = None, updatedAt = None,
      lastPayment = None, paymentHistory = [], subscriptionEndedAt = None\<rparr>"

definition sample_store :: store where
  "sample_store =
     \<lparr>users = [(''u0'', blank_user), (''u1'', blank_user\<lparr>stripeCustomerId := Some ''cus_1''\<rparr>)],
      sub_docs = [], payment_logs = []\<rparr>"

definition sample_world :: "nat world" where
  "sample_world = \<lparr>ledger = sample_store, remote = 0, calls = []\<rparr>"

text \<open>
  Processors that reject: the attach; the creation of a customer; the update of a
  subscription once it has been updated (the processor's state counts the updates); and
  the setting of the default payment method as long as no attach was accepted (the
  state is then the number of accepted attaches).
\<close>

definition expiring_stripe :: "nat stripe" where
  "expiring_stripe =
     sample_stripe\<lparr>subscriptions_update :=
       (\<lambda>sid flag n.
          if n = 0 then (Inr sample_subscription, Suc n)
          else (Inl (StripeError ''No such subscription''), n))\<rparr>"

definition strict_stripe :: "nat stripe" where
  "strict_stripe =
     sample_stripe\<lparr>customers_create := (\<lambda>email name pm uid n. (Inr \<lparr>customer_id = ''cus_2''\<rparr>, n)),
       paymentMethods_attach := (\<lambda>pm c n. (Inl (StripeError ''Your card was declined.''), n)),
       customers_update :=
         (\<lambda>c pm n. if n = 0 then (Inl (StripeError ''The payment method is not attached''), n)
                   else (Inr (), n))\<rparr>"

definition declining_stripe :: "nat stripe" where
  "declining_stripe =
     sample_stripe\<lparr>paymentMethods_attach :=
       (\<lambda>pm c n. (Inl (StripeError ''Your card was declined.''), n))\<rparr>"

definition rejecting_stripe :: "nat stripe" where
  "rejecting_stripe =
     sample_stripe\<lparr>customers_create :=
       (\<lambda>email name pm uid n. (Inl (StripeError ''No such PaymentMethod''), n))\<rparr>"

definition sample_clock :: clock where
  "sample_clock =
     \<lparr>serverTimestamp = 1700000000, toISOString = ''2023-11-14T22:13:20.000Z'',
      cardAutoId = ''card_a'', logAutoId = ''log_a''\<rparr>"

definition sample_cancel :: cancel_body where
  "sample_cancel = \<lparr>cancel_subscriptionId = ''sub_1'', cancel_userId = ''u1''\<rparr>"

definition sample_body :: create_body where
  "sample_body =
     \<lparr>paymentMethodId = ''pm_1'', priceId = ''price_1'', userId = ''u0'', saveCard = True,
      userEmail = ''a@b.com'', userName = ''A''\<rparr>"

text \<open>The entry the handling of \<open>paid_event\<close> at \<open>sample_clock\<close> records, and the store after it.\<close>

definition sample_entry :: payment_entry where
  "sample_entry = \<lparr>date = ''2023-11-14T22:13:20.000Z'', amount = 999 / 100, invoiceId = ''in_1''\<rparr>"

definition paid_store :: store where
  "paid_store =
     \<lparr>users = [(''u0'', blank_user),
               (''u1'', blank_user\<lparr>stripeCustomerId := Some ''cus_1'',
                  subscriptionStatus := Some ''active'',
                  lastPayment := Some 1700000000,
                  paymentHistory := [sample_entry]\<rparr>)],
      sub_docs = [], payment_logs = []\<rparr>"

definition later_clock :: clock where
  "later_clock =
     \<lparr>serverTimestamp = 1700000060, toISOString = ''2023-11-14T22:14:20.000Z'',
      cardAutoId = ''card_b'', logAutoId = ''log_b''\<rparr>"

text \<open>
  The store after the first create-subscription call of the user \<open>u0\<close> with the card
  saved, and the world after one accepted cancel-subscription call of the user \<open>u1\<close>
  with the processor \<open>expiring_stripe\<close>.
\<close>

definition subscribed_store :: store where
  "subscribed_store =
     \<lparr>users =
        [(''u0'', blank_user\<lparr>stripeCustomerId := Some ''cus_2'',
             subscriptionId := Some ''sub_1'',
             subscriptionStatus := Some ''incomplete'',
             subscriptionUpdatedAt := Some 1700000000\<rparr>),
         (''u1'', blank_user\<lparr>stripeCustomerId := Some ''cus_1''\<rparr>)],
      sub_docs =
        [([''u0'', ''payment_methods'', ''card_a''],
          \<lparr>user_fields = no_fields,
           card_fields = Some
             \<lparr>card_paymentMethodId = ''pm_1'', card_brand = ''visa'', card_last4 = ''4242'',
              card_expMonth = 12, card_expYear = 2030, card_isDefault = True,
              card_createdAt = 1700000000\<rparr>\<rparr>)],
      payment_logs =
        [(''log_a'',
          \<lparr>log_userId = ''u0'', log_customerId = ''cus_2'', log_subscriptionId = ''sub_1'',
           log_amount = 999 / 100, log_currency = ''cad'', log_status = ''incomplete'',
           log_timestamp = 1700000000\<rparr>)]\<rparr>"

definition cancelled_once :: "nat world" where
  "cancelled_once =
     \<lparr>ledger =
        sample_store\<lparr>users :=
          [(''u0'', blank_user),
           (''u1'', blank_user\<lparr>stripeCustomerId := Some ''cus_1'',
               subscriptionStatus := Some ''canceling'',
               cancelAtPeriodEnd := Some True,
               updatedAt := Some 1700000000\<rparr>)]\<rparr>,
      remote = 1,
      calls = [(Subscriptions_update ''sub_1'' True, True)]\<rparr>"

section \<open>Properties\<close>

subsection \<open>The store operations\<close>

lemma update_user_split:
  "k \<notin> fst ` set pre \<Longrightarrow> update_user k f (pre @ (k, d) # post) = pre @ (k, f d) # post"
  by (induction pre) auto

lemma map_of_update_user:
  "map_of (update_user k f xs) k' = (if k' = k then map_option f (map_of xs k) else map_of xs k')"
  by (induction xs) auto

lemma map_fst_update_user: "map fst (update_user k f xs) = map fst xs"
  by (induction xs) auto

lemma doc_update_wf: "wf_store s \<Longrightarrow> doc_update k f s = Inr s' \<Longrightarrow> wf_store s'"
  by (auto simp: doc_update_def wf_store_def map_fst_update_user split: option.splits)

lemma first_match_split:
  assumes "filter Q xs = y # ys"
  shows "\<exists>pre post. xs = pre @ y # post \<and> (\<forall>x\<in>set pre. \<not> Q x) \<and> Q y"
  using assms by (auto simp: filter_eq_Cons_iff)

lemma doc_update_first_match:
  assumes wf: "wf_store s"
    and sp: "users s = pre @ (k, d) # post"
  shows "doc_update k f s = Inr (s\<lparr>users := pre @ (k, f d) # post\<rparr>)"
proof -
  from wf sp have nk: "k \<notin> fst ` set pre"
    by (auto simp: wf_store_def)
  then have "map_of (users s) k = Some d"
    using sp by (simp add: map_of_eq_None_iff[THEN iffD2] map_add_def split: option.split)
  then show ?thesis
    using nk sp by (simp add: doc_update_def doc_get_def update_user_split)
qed

lemma first_match_exists:
  assumes "where_stripeCustomerId s c \<noteq> []"
  shows "\<exists>pre k d post. users s = pre @ (k, d) # post
     \<and> (\<forall>(k', d') \<in> set pre. stripeCustomerId d' \<noteq> Some c) \<and> stripeCustomerId d = Some c"
proof -
  obtain y ys where "where_stripeCustomerId s c = y # ys"
    using assms by (cases "where_stripeCustomerId s c") auto
  then have "\<exists>pre post. users s = pre @ y # post
      \<and> (\<forall>x\<in>set pre. \<not> (case x of (k, d) \<Rightarrow> stripeCustomerId d = Some c))
      \<and> (case y of (k, d) \<Rightarrow> stripeCustomerId d = Some c)"
    unfolding where_stripeCustomerId_def by (rule first_match_split)
  then show ?thesis by (cases y) fastforce
qed

lemma sample_store_wf: "wf_store sample_store"
  by (simp add: wf_store_def sample_store_def)

subsection \<open>The webhook\<close>

text \<open>
  C1. With a webhook secret configured, a request whose signature
  \<open>stripe.webhooks.constructEvent\<close> rejects is answered with the 400 response carrying
  the error's message, and the ledger store (and the rest of the world) is left as it was.
\<close>

theorem webhook_invalid_signature:
  assumes "secret \<noteq> []"
    and "webhooks_constructEvent P body sig secret = Inl err"
  shows "webhook P JSON_parse (Some secret) clk body sig s = (WebhookError err, s)
    \<and> handle P users_doc JSON_parse (Some secret) clk (Webhook body sig) w = (WebhookError err, w)"
  using assms by (simp add: webhook_def decode_event_def)

theorem webhook_invalid_signature_witness:
  "webhook sample_stripe sample_decode (Some ''whsec'') sample_clock ''paid'' ''forged'' sample_store
     = (WebhookError (StripeError ''No signatures found matching the expected signature for payload''), sample_store)
   \<and> handle sample_stripe client_doc sample_decode (Some ''whsec'') sample_clock (Webhook ''paid'' ''forged'') sample_world
     = (WebhookError (StripeError ''No signatures found matching the expected signature for payload''), sample_world)"
  using webhook_invalid_signature [where secret = "''whsec''" and P = sample_stripe
      and body = "''paid''" and sig = "''forged''"
      and err = "StripeError ''No signatures found matching the expected signature for payload''"
      and JSON_parse = sample_decode and clk = sample_clock and s = sample_store
      and users_doc = client_doc and w = sample_world]
  by (simp add: sample_stripe_def)

lemma dispatch_payment_succeeded:
  assumes wf: "wf_store s"
    and ty: "event_type ev = ''invoice.payment_succeeded''"
    and sp: "users s = pre @ (k, d) # post"
    and pre: "\<forall>(k', d') \<in> set pre. stripeCustomerId d' \<noteq> Some (object_customer (data_object ev))"
    and hit: "stripeCustomerId d = Some (object_customer (data_object ev))"
  shows "dispatch_event clk ev s =
     Inr (s\<lparr>users := pre @
        (k, d\<lparr>subscriptionStatus := Some ''active'',
              lastPayment := Some (serverTimestamp clk),
              paymentHistory :=
                arrayUnion
                  \<lparr>date = toISOString clk,
                   amount = of_int (amount_paid (data_object ev)) / 100,
                   invoiceId = object_id (data_object ev)\<rparr>
                  (paymentHistory d)\<rparr>) # post\<rparr>)"
proof -
  have "filter (\<lambda>(k', d'). stripeCustomerId d' = Some (object_customer (data_object ev))) pre = []"
    using pre by (auto simp: filter_empty_conv)
  then have "\<exists>rest. where_stripeCustomerId s (object_customer (data_object ev)) = (k, d) # rest"
    using sp hit by (simp add: where_stripeCustomerId_def)
  then obtain rest where q: "where_stripeCustomerId s (object_customer (data_object ev)) = (k, d) # rest" ..
  show ?thesis
    using ty q doc_update_first_match [OF wf sp] by (simp add: dispatch_event_def Let_def)
qed

lemma dispatch_subscription_deleted:
  assumes wf: "wf_store s"
    and ty: "event_type ev = ''customer.subscription.deleted''"
    and sp: "users s = pre @ (k, d) # post"
    and pre: "\<forall>(k', d') \<in> set pre. stripeCustomerId d' \<noteq> Some (object_customer (data_object ev))"
    and hit: "stripeCustomerId d = Some (object_customer (data_object ev))"
  shows "dispatch_event clk ev s =
     Inr (s\<lparr>users := pre @
        (k, d\<lparr>subscriptionStatus := Some ''cancelled'',
              subscriptionEndedAt := Some (serverTimestamp clk)\<rparr>) # post\<rparr>)"
proof -
  have "filter (\<lambda>(k', d'). stripeCustomerId d' = Some (object_customer (data_object ev))) pre = []"
    using pre by (auto simp: filter_empty_conv)
  then have "\<exists>rest. where_stripeCustomerId s (object_customer (data_object ev)) = (k, d) # rest"
    using sp hit by (simp add: where_stripeCustomerId_def)
  then obtain rest where q: "where_stripeCustomerId s (object_customer (data_object ev)) = (k, d) # rest" ..
  show ?thesis
    using ty q doc_update_first_match [OF wf sp] by (simp add: dispatch_event_def Let_def)
qed

lemma sample_decode_paid:
  "decode_event sample_stripe sample_decode (Some ''whsec'') ''paid'' ''whsec'' = Inr paid_event"
  by (simp add: decode_event_def sample_stripe_def sample_decode_def)

lemma sample_decode_stranger_paid:
  "decode_event sample_stripe sample_decode (Some ''whsec'') ''paid 9'' ''whsec'' = Inr stranger_paid_event"
  by (simp add: decode_event_def sample_stripe_def sample_decode_def)

lemma sample_decode_deleted:
  "decode_event sample_stripe sample_decode (Some ''whsec'') ''deleted'' ''whsec'' = Inr deleted_event"
  by (simp add: decode_event_def sample_stripe_def sample_decode_def)

lemma sample_decode_stranger_deleted:
  "decode_event sample_stripe sample_decode (Some ''whsec'') ''deleted 9'' ''whsec'' = Inr stranger_deleted_event"
  by (simp add: decode_event_def sample_stripe_def sample_decode_def)

text \<open>The handler run on the sample store: once, and once more at the same clock reading.\<close>

lemma sample_paid_once:
  "webhook sample_stripe sample_decode (Some ''whsec'') sample_clock ''paid'' ''whsec'' sample_store =
     (Received, paid_store)"
  by (simp add: webhook_def sample_decode_paid dispatch_event_def paid_event_def
      where_stripeCustomerId_def sample_store_def blank_user_def doc_update_def doc_get_def
      arrayUnion_def sample_clock_def paid_store_def sample_entry_def)

lemma sample_paid_again:
  "webhook sample_stripe sample_decode (Some ''whsec'') sample_clock ''paid'' ''whsec'' paid_store =
     (Received, paid_store)"
  by (simp add: webhook_def sample_decode_paid dispatch_event_def paid_event_def
      where_stripeCustomerId_def blank_user_def doc_update_def doc_get_def
      arrayUnion_def sample_clock_def paid_store_def sample_entry_def)

lemma two_distinct_members:
  assumes "x \<in> set xs" "y \<in> set xs" "x \<noteq> y" "Q x" "Q y"
  shows "2 \<le> length (filter Q xs)"
proof -
  have "{x, y} \<subseteq> set (filter Q xs)" using assms by simp
  then have "card {x, y} \<le> card (set (filter Q xs))" by (intro card_mono) auto
  also have "\<dots> \<le> length (filter Q xs)" by (rule card_length)
  finally show ?thesis using assms(3) by simp
qed

text \<open>
  C2 (as amended). An \<open>invoice.payment_succeeded\<close> event that decodes, and whose customer
  id matches at least one user document, updates exactly the first matching document:
  the documents before it and after it are untouched, its status becomes \<open>active\<close>, its
  \<open>lastPayment\<close> is stamped, and the entry (date of the handling, paid amount / 100,
  invoice id) is added at the end of its payment history unless the history already holds
  an equal entry, in which case the history stays as it is (\<open>arrayUnion\<close>). The answer
  is \<open>{received: true}\<close>.
\<close>

theorem payment_succeeded_first_match:
  assumes wf: "wf_store s"
    and dec: "decode_event P JSON_parse webhookSecret body sig = Inr ev"
    and ty: "event_type ev = ''invoice.payment_succeeded''"
    and m: "where_stripeCustomerId s (object_customer (data_object ev)) \<noteq> []"
  shows "\<exists>pre k d post.
      users s = pre @ (k, d) # post
    \<and> (\<forall>(k', d') \<in> set pre. stripeCustomerId d' \<noteq> Some (object_customer (data_object ev)))
    \<and> stripeCustomerId d = Some (object_customer (data_object ev))
    \<and> webhook P JSON_parse webhookSecret clk body sig s =
        (Received,
         s\<lparr>users := pre @
           (k, d\<lparr>subscriptionStatus := Some ''active'',
                 lastPayment := Some (serverTimestamp clk),
                 paymentHistory :=
                   (let e = \<lparr>date = toISOString clk,
                             amount = of_int (amount_paid (data_object ev)) / 100,
                             invoiceId = object_id (data_object ev)\<rparr>
                    in if e \<in> set (paymentHistory d) then paymentHistory d
                       else paymentHistory d @ [e])\<rparr>) # post\<rparr>)"
proof -
  from first_match_exists [OF m] obtain pre k d post where
    sp: "users s = pre @ (k, d) # post"
    and pre: "\<forall>(k', d') \<in> set pre. stripeCustomerId d' \<noteq> Some (object_customer (data_object ev))"
    and hit: "stripeCustomerId d = Some (object_customer (data_object ev))"
    by blast
  have "webhook P JSON_parse webhookSecret clk body sig s =
        (Received,
         s\<lparr>users := pre @
           (k, d\<lparr>subscriptionStatus := Some ''active'',
                 lastPayment := Some (serverTimestamp clk),
                 paymentHistory :=
                   (let e = \<lparr>date = toISOString clk,
                             amount = of_int (amount_paid (data_object ev)) / 100,
                             invoiceId = object_id (data_object ev)\<rparr>
                    in if e \<in> set (paymentHistory d) then paymentHistory d
                       else paymentHistory d @ [e])\<rparr>) # post\<rparr>)"
    using dec dispatch_payment_succeeded [OF wf ty sp pre hit, of clk]
    by (simp add: webhook_def arrayUnion_def Let_def)
  with sp pre hit show ?thesis by blast
qed

theorem payment_succeeded_first_match_witness:
  "wf_store sample_store
   \<and> where_stripeCustomerId sample_store (object_customer (data_object paid_event)) \<noteq> []
   \<and> (\<exists>pre k d post.
      users sample_store = pre @ (k, d) # post
    \<and> (\<forall>(k', d') \<in> set pre. stripeCustomerId d' \<noteq> Some (object_customer (data_object paid_event)))
    \<and> stripeCustomerId d = Some (object_customer (data_object paid_event))
    \<and> webhook sample_stripe sample_decode (Some ''whsec'') sample_clock ''paid'' ''whsec'' sample_store =
        (Received,
         sample_store\<lparr>users := pre @
           (k, d\<lparr>subscriptionStatus := Some ''active'',
                 lastPayment := Some (serverTimestamp sample_clock),
                 paymentHistory :=
                   (let e = \<lparr>date = toISOString sample_clock,
                             amount = of_int (amount_paid (data_object paid_event)) / 100,
                             invoiceId = object_id (data_object paid_event)\<rparr>
                    in if e \<in> set (paymentHistory d) then paymentHistory d
                       else paymentHistory d @ [e])\<rparr>) # post\<rparr>))"
proof -
  have ty: "event_type paid_event = ''invoice.payment_succeeded''"
    by (simp add: paid_event_def)
  have m: "where_stripeCustomerId sample_store (object_customer (data_object paid_event)) \<noteq> []"
    by (simp add: where_stripeCustomerId_def sample_store_def paid_event_def blank_user_def)
  show ?thesis
    using sample_store_wf m
      payment_succeeded_first_match [OF sample_store_wf sample_decode_paid ty m, of sample_clock]
    by blast
qed

text \<open>
  C2, as stated ("an entry is appended"), fails where the history already holds the
  entry: handling \<open>paid_event\<close> at \<open>sample_clock\<close> on the store that already
  recorded it leaves the history with its one entry.
\<close>

theorem payment_succeeded_append_counterexample:
  "map_option paymentHistory (doc_get paid_store ''u1'') = Some [sample_entry]
   \<and> sample_entry =
       \<lparr>date = toISOString sample_clock,
        amount = of_int (amount_paid (data_object paid_event)) / 100,
        invoiceId = object_id (data_object paid_event)\<rparr>
   \<and> fst (webhook sample_stripe sample_decode (Some ''whsec'') sample_clock ''paid'' ''whsec'' paid_store)
       = Received
   \<and> map_option paymentHistory
        (doc_get (snd (webhook sample_stripe sample_decode (Some ''whsec'') sample_clock ''paid'' ''whsec'' paid_store)) ''u1'')
       = Some [sample_entry]"
  by (simp add: sample_paid_again)
     (simp add: paid_store_def doc_get_def sample_entry_def sample_clock_def paid_event_def)

text \<open>
  C3 (as amended). The same \<open>invoice.payment_succeeded\<close> event handled twice, at two
  clock readings whose dates differ, leaves in the history of the first matching document
  two distinct entries for that invoice, one per handling: at least two entries carry the
  invoice id, and when neither entry was there before, the history is the old one followed
  by the two.
\<close>

theorem payment_succeeded_twice:
  assumes wf: "wf_store s"
    and dec: "decode_event P JSON_parse webhookSecret body sig = Inr ev"
    and ty: "event_type ev = ''invoice.payment_succeeded''"
    and m: "where_stripeCustomerId s (object_customer (data_object ev)) \<noteq> []"
    and dates: "toISOString clk1 \<noteq> toISOString clk2"
  shows "\<exists>pre k d post s1 d2.
      users s = pre @ (k, d) # post
    \<and> (\<forall>(k', d') \<in> set pre. stripeCustomerId d' \<noteq> Some (object_customer (data_object ev)))
    \<and> stripeCustomerId d = Some (object_customer (data_object ev))
    \<and> webhook P JSON_parse webhookSecret clk1 body sig s = (Received, s1)
    \<and> webhook P JSON_parse webhookSecret clk2 body sig s1 = (Received, s1\<lparr>users := pre @ (k, d2) # post\<rparr>)
    \<and> (let inv = object_id (data_object ev);
            amt = of_int (amount_paid (data_object ev)) / 100;
            e1 = \<lparr>date = toISOString clk1, amount = amt, invoiceId = inv\<rparr>;
            e2 = \<lparr>date = toISOString clk2, amount = amt, invoiceId = inv\<rparr>
        in e1 \<noteq> e2
         \<and> e1 \<in> set (paymentHistory d2) \<and> e2 \<in> set (paymentHistory d2)
         \<and> 2 \<le> length (filter (\<lambda>e. invoiceId e = inv) (paymentHistory d2))
         \<and> (e1 \<notin> set (paymentHistory d) \<and> e2 \<notin> set (paymentHistory d)
              \<longrightarrow> paymentHistory d2 = paymentHistory d @ [e1, e2]))"
proof -
  define c where "c = object_customer (data_object ev)"
  define inv where "inv = object_id (data_object ev)"
  define amt :: rat where "amt = of_int (amount_paid (data_object ev)) / 100"
  define e1 where "e1 = \<lparr>date = toISOString clk1, amount = amt, invoiceId = inv\<rparr>"
  define e2 where "e2 = \<lparr>date = toISOString clk2, amount = amt, invoiceId = inv\<rparr>"
  from first_match_exists [OF m] obtain pre k d post where
    sp: "users s = pre @ (k, d) # post"
    and pre: "\<forall>(k', d') \<in> set pre. stripeCustomerId d' \<noteq> Some (object_customer (data_object ev))"
    and hit: "stripeCustomerId d = Some (object_customer (data_object ev))"
    by blast
  define d1 where "d1 = d\<lparr>subscriptionStatus := Some ''active'',
      lastPayment := Some (serverTimestamp clk1),
      paymentHistory := arrayUnion e1 (paymentHistory d)\<rparr>"
  define s1 where "s1 = s\<lparr>users := pre @ (k, d1) # post\<rparr>"
  define d2 where "d2 = d1\<lparr>subscriptionStatus := Some ''active'',
      lastPayment := Some (serverTimestamp clk2),
      paymentHistory := arrayUnion e2 (paymentHistory d1)\<rparr>"
  have r1: "webhook P JSON_parse webhookSecret clk1 body sig s = (Received, s1)"
    using dec dispatch_payment_succeeded [OF wf ty sp pre hit, of clk1]
    by (simp add: webhook_def s1_def d1_def e1_def amt_def inv_def)
  have wf1: "wf_store s1"
    using wf sp by (simp add: wf_store_def s1_def)
  have sp1: "users s1 = pre @ (k, d1) # post"
    by (simp add: s1_def)
  have hit1: "stripeCustomerId d1 = Some (object_customer (data_object ev))"
    using hit by (simp add: d1_def)
  have r2: "webhook P JSON_parse webhookSecret clk2 body sig s1 = (Received, s1\<lparr>users := pre @ (k, d2) # post\<rparr>)"
    using dec dispatch_payment_succeeded [OF wf1 ty sp1 pre hit1, of clk2]
    by (simp add: webhook_def d2_def e2_def amt_def inv_def)
  have h2: "paymentHistory d2 = arrayUnion e2 (arrayUnion e1 (paymentHistory d))"
    by (simp add: d2_def d1_def)
  have ne: "e1 \<noteq> e2"
    using dates by (simp add: e1_def e2_def)
  have in1: "e1 \<in> set (paymentHistory d2)" and in2: "e2 \<in> set (paymentHistory d2)"
    by (simp_all add: h2 arrayUnion_def)
  have cnt: "2 \<le> length (filter (\<lambda>e. invoiceId e = inv) (paymentHistory d2))"
    by (rule two_distinct_members [OF in1 in2 ne]) (simp_all add: e1_def e2_def)
  have fresh: "e1 \<notin> set (paymentHistory d) \<and> e2 \<notin> set (paymentHistory d)
      \<longrightarrow> paymentHistory d2 = paymentHistory d @ [e1, e2]"
    using ne by (auto simp: h2 arrayUnion_def)
  have "let inv = object_id (data_object ev);
            amt = of_int (amount_paid (data_object ev)) / 100;
            e1 = \<lparr>date = toISOString clk1, amount = amt, invoiceId = inv\<rparr>;
            e2 = \<lparr>date = toISOString clk2, amount = amt, invoiceId = inv\<rparr>
        in e1 \<noteq> e2
         \<and> e1 \<in> set (paymentHistory d2) \<and> e2 \<in> set (paymentHistory d2)
         \<and> 2 \<le> length (filter (\<lambda>e. invoiceId e = inv) (paymentHistory d2))
         \<and> (e1 \<notin> set (paymentHistory d) \<and> e2 \<notin> set (paymentHistory d)
              \<longrightarrow> paymentHistory d2 = paymentHistory d @ [e1, e2])"
    using ne in1 in2 cnt fresh
    unfolding Let_def e1_def e2_def amt_def inv_def by blast
  with sp pre hit r1 r2 show ?thesis by blast
qed

theorem payment_succeeded_twice_witness:
  "wf_store sample_store
   \<and> toISOString sample_clock \<noteq> toISOString later_clock
   \<and> (\<exists>pre k d post s1 d2.
      users sample_store = pre @ (k, d) # post
    \<and> (\<forall>(k', d') \<in> set pre. stripeCustomerId d' \<noteq> Some (object_customer (data_object paid_event)))
    \<and> stripeCustomerId d = Some (object_customer (data_object paid_event))
    \<and> webhook sample_stripe sample_decode (Some ''whsec'') sample_clock ''paid'' ''whsec'' sample_store = (Received, s1)
    \<and> webhook sample_stripe sample_decode (Some ''whsec'') later_clock ''paid'' ''whsec'' s1
        = (Received, s1\<lparr>users := pre @ (k, d2) # post\<rparr>)
    \<and> (let inv = object_id (data_object paid_event);
            amt = of_int (amount_paid (data_object paid_event)) / 100;
            e1 = \<lparr>date = toISOString sample_clock, amount = amt, invoiceId = inv\<rparr>;
            e2 = \<lparr>date = toISOString later_clock, amount = amt, invoiceId = inv\<rparr>
        in e1 \<noteq> e2
         \<and> e1 \<in> set (paymentHistory d2) \<and> e2 \<in> set (paymentHistory d2)
         \<and> 2 \<le> length (filter (\<lambda>e. invoiceId e = inv) (paymentHistory d2))
         \<and> (e1 \<notin> set (paymentHistory d) \<and> e2 \<notin> set (paymentHistory d)
              \<longrightarrow> paymentHistory d2 = paymentHistory d @ [e1, e2])))"
proof -
  have ty: "event_type paid_event = ''invoice.payment_succeeded''"
    by (simp add: paid_event_def)
  have m: "where_stripeCustomerId sample_store (object_customer (data_object paid_event)) \<noteq> []"
    by (simp add: where_stripeCustomerId_def sample_store_def paid_event_def blank_user_def)
  have dates: "toISOString sample_clock \<noteq> toISOString later_clock"
    by (simp add: sample_clock_def later_clock_def)
  show ?thesis
    using sample_store_wf dates
      payment_succeeded_twice [OF sample_store_wf sample_decode_paid ty m dates]
    by blast
qed

text \<open>
  C3, without the condition on the dates, fails: handled twice at the same clock
  reading, the event leaves one entry for the invoice.
\<close>

theorem payment_succeeded_twice_counterexample:
  "(let s1 = snd (webhook sample_stripe sample_decode (Some ''whsec'') sample_clock ''paid'' ''whsec'' sample_store);
        s2 = snd (webhook sample_stripe sample_decode (Some ''whsec'') sample_clock ''paid'' ''whsec'' s1)
    in map_option (\<lambda>d. length (filter (\<lambda>e. invoiceId e = ''in_1'') (paymentHistory d))) (doc_get s2 ''u1''))
   = Some 1"
  by (simp add: sample_paid_once sample_paid_again)
     (simp add: paid_store_def doc_get_def sample_entry_def)

text \<open>
  In general, a second handling of the event at the clock reading of the first changes
  nothing: the entry is already there.
\<close>

lemma payment_succeeded_same_clock:
  assumes wf: "wf_store s"
    and dec: "decode_event P JSON_parse webhookSecret body sig = Inr ev"
    and ty: "event_type ev = ''invoice.payment_succeeded''"
    and first: "webhook P JSON_parse webhookSecret clk body sig s = (r, s1)"
  shows "webhook P JSON_parse webhookSecret clk body sig s1 = (Received, s1)"
proof (cases "where_stripeCustomerId s (object_customer (data_object ev)) = []")
  case True
  then show ?thesis
    using dec ty first by (simp add: webhook_def dispatch_event_def)
next
  case False
  from first_match_exists [OF False] obtain pre k d post where
    sp: "users s = pre @ (k, d) # post"
    and pre: "\<forall>(k', d') \<in> set pre. stripeCustomerId d' \<noteq> Some (object_customer (data_object ev))"
    and hit: "stripeCustomerId d = Some (object_customer (data_object ev))"
    by blast
  let ?e = "\<lparr>date = toISOString clk, amount = of_int (amount_paid (data_object ev)) / 100,
      invoiceId = object_id (data_object ev)\<rparr>"
  let ?d1 = "d\<lparr>subscriptionStatus := Some ''active'', lastPayment := Some (serverTimestamp clk),
      paymentHistory := arrayUnion ?e (paymentHistory d)\<rparr>"
  have s1: "s1 = s\<lparr>users := pre @ (k, ?d1) # post\<rparr>"
    using dec first dispatch_payment_succeeded [OF wf ty sp pre hit, of clk]
    by (simp add: webhook_def)
  have wf1: "wf_store s1" using wf sp by (simp add: wf_store_def s1)
  have sp1: "users s1 = pre @ (k, ?d1) # post" by (simp add: s1)
  have hit1: "stripeCustomerId ?d1 = Some (object_customer (data_object ev))" using hit by simp
  have same: "?d1\<lparr>subscriptionStatus := Some ''active'', lastPayment := Some (serverTimestamp clk),
      paymentHistory := arrayUnion ?e (paymentHistory ?d1)\<rparr> = ?d1"
    by (simp add: arrayUnion_def)
  show ?thesis
    using dec dispatch_payment_succeeded [OF wf1 ty sp1 pre hit1, of clk] same
    by (simp add: webhook_def s1)
qed

text \<open>
  C4. An \<open>invoice.payment_succeeded\<close> event that decodes and whose customer id matches
  no user document changes nothing (the store and the whole world are as before) and is
  answered with \<open>{received: true}\<close>.
\<close>

theorem payment_succeeded_no_match:
  assumes dec: "decode_event P JSON_parse webhookSecret body sig = Inr ev"
    and ty: "event_type ev = ''invoice.payment_succeeded''"
    and m: "where_stripeCustomerId (ledger w) (object_customer (data_object ev)) = []"
  shows "webhook P JSON_parse webhookSecret clk body sig (ledger w) = (Received, ledger w)
    \<and> handle P users_doc JSON_parse webhookSecret clk (Webhook body sig) w = (Received, w)"
  using assms by (simp add: webhook_def dispatch_event_def)

theorem payment_succeeded_no_match_witness:
  "where_stripeCustomerId (ledger sample_world) (object_customer (data_object stranger_paid_event)) = []
   \<and> webhook sample_stripe sample_decode (Some ''whsec'') sample_clock ''paid 9'' ''whsec'' (ledger sample_world)
       = (Received, ledger sample_world)
   \<and> handle sample_stripe client_doc sample_decode (Some ''whsec'') sample_clock (Webhook ''paid 9'' ''whsec'') sample_world
       = (Received, sample_world)"
proof -
  have ty: "event_type stranger_paid_event = ''invoice.payment_succeeded''"
    by (simp add: stranger_paid_event_def)
  have m: "where_stripeCustomerId (ledger sample_world) (object_customer (data_object stranger_paid_event)) = []"
    by (simp add: where_stripeCustomerId_def sample_world_def sample_store_def
        stranger_paid_event_def blank_user_def)
  show ?thesis
    using m payment_succeeded_no_match [OF sample_decode_stranger_paid ty m, of sample_clock]
    by simp
qed

text \<open>
  C5. A \<open>customer.subscription.deleted\<close> event that decodes: when exactly one user
  document matches its customer id, that document gets the status \<open>cancelled\<close> and the
  \<open>subscriptionEndedAt\<close> stamp, and every other document is untouched; when none
  matches, the store is unchanged. Both are answered with \<open>{received: true}\<close>.
\<close>

theorem subscription_deleted:
  assumes wf: "wf_store s"
    and dec: "decode_event P JSON_parse webhookSecret body sig = Inr ev"
    and ty: "event_type ev = ''customer.subscription.deleted''"
  shows "(\<forall>k d. where_stripeCustomerId s (object_customer (data_object ev)) = [(k, d)] \<longrightarrow>
           (\<exists>pre post. users s = pre @ (k, d) # post
              \<and> webhook P JSON_parse webhookSecret clk body sig s =
                  (Received,
                   s\<lparr>users := pre @
                      (k, d\<lparr>subscriptionStatus := Some ''cancelled'',
                            subscriptionEndedAt := Some (serverTimestamp clk)\<rparr>) # post\<rparr>)))
    \<and> (where_stripeCustomerId s (object_customer (data_object ev)) = [] \<longrightarrow>
           webhook P JSON_parse webhookSecret clk body sig s = (Received, s))"
proof (intro conjI allI impI)
  fix k d
  assume one: "where_stripeCustomerId s (object_customer (data_object ev)) = [(k, d)]"
  then have "\<exists>pre post. users s = pre @ (k, d) # post
      \<and> (\<forall>x\<in>set pre. \<not> (case x of (k', d') \<Rightarrow> stripeCustomerId d' = Some (object_customer (data_object ev))))
      \<and> (case (k, d) of (k', d') \<Rightarrow> stripeCustomerId d' = Some (object_customer (data_object ev)))"
    unfolding where_stripeCustomerId_def by (rule first_match_split)
  then obtain pre post where sp: "users s = pre @ (k, d) # post"
    and pre: "\<forall>(k', d') \<in> set pre. stripeCustomerId d' \<noteq> Some (object_customer (data_object ev))"
    and hit: "stripeCustomerId d = Some (object_customer (data_object ev))"
    by fastforce
  have "webhook P JSON_parse webhookSecret clk body sig s =
      (Received,
       s\<lparr>users := pre @
          (k, d\<lparr>subscriptionStatus := Some ''cancelled'',
                subscriptionEndedAt := Some (serverTimestamp clk)\<rparr>) # post\<rparr>)"
    using dec dispatch_subscription_deleted [OF wf ty sp pre hit, of clk]
    by (simp add: webhook_def)
  with sp show "\<exists>pre post. users s = pre @ (k, d) # post
      \<and> webhook P JSON_parse webhookSecret clk body sig s =
          (Received,
           s\<lparr>users := pre @
              (k, d\<lparr>subscriptionStatus := Some ''cancelled'',
                    subscriptionEndedAt := Some (serverTimestamp clk)\<rparr>) # post\<rparr>)"
    by blast
next
  assume "where_stripeCustomerId s (object_customer (data_object ev)) = []"
  then show "webhook P JSON_parse webhookSecret clk body sig s = (Received, s)"
    using dec ty by (simp add: webhook_def dispatch_event_def)
qed

theorem subscription_deleted_witness:
  "wf_store sample_store
   \<and> where_stripeCustomerId sample_store (object_customer (data_object deleted_event))
       = [(''u1'', blank_user\<lparr>stripeCustomerId := Some ''cus_1''\<rparr>)]
   \<and> (\<exists>pre post. users sample_store = pre @ (''u1'', blank_user\<lparr>stripeCustomerId := Some ''cus_1''\<rparr>) # post
         \<and> webhook sample_stripe sample_decode (Some ''whsec'') sample_clock ''deleted'' ''whsec'' sample_store =
             (Received,
              sample_store\<lparr>users := pre @
                (''u1'', blank_user\<lparr>stripeCustomerId := Some ''cus_1'',
                    subscriptionStatus := Some ''cancelled'',
                    subscriptionEndedAt := Some (serverTimestamp sample_clock)\<rparr>) # post\<rparr>))
   \<and> where_stripeCustomerId sample_store (object_customer (data_object stranger_deleted_event)) = []
   \<and> webhook sample_stripe sample_decode (Some ''whsec'') sample_clock ''deleted 9'' ''whsec'' sample_store
       = (Received, sample_store)"
proof -
  have ty: "event_type deleted_event = ''customer.subscription.deleted''"
    by (simp add: deleted_event_def)
  have ty9: "event_type stranger_deleted_event = ''customer.subscription.deleted''"
    by (simp add: stranger_deleted_event_def)
  have one: "where_stripeCustomerId sample_store (object_customer (data_object deleted_event))
       = [(''u1'', blank_user\<lparr>stripeCustomerId := Some ''cus_1''\<rparr>)]"
    by (simp add: where_stripeCustomerId_def sample_store_def deleted_event_def blank_user_def)
  have none: "where_stripeCustomerId sample_store (object_customer (data_object stranger_deleted_event)) = []"
    by (simp add: where_stripeCustomerId_def sample_store_def stranger_deleted_event_def blank_user_def)
  show ?thesis
    using sample_store_wf one none
      subscription_deleted [OF sample_store_wf sample_decode_deleted ty, of sample_clock]
      subscription_deleted [OF sample_store_wf sample_decode_stranger_deleted ty9, of sample_clock]
    by simp
qed

lemma update_user_twice:
  assumes "\<And>d. g (f d) = g d"
  shows "update_user k g (update_user k f xs) = update_user k g xs"
  using assms by (induction xs) auto

lemma doc_get_update_user:
  "map_of (update_user k f xs) k = map_option f (map_of xs k)"
  by (simp add: map_of_update_user)

subsection \<open>Stores that extend the payment histories\<close>

lemma history_extended_refl: "history_extended s s"
  by (simp add: history_extended_def list_all2_same split: prod.splits)

lemma history_extended_same_users: "users s' = users s \<Longrightarrow> history_extended s s'"
  by (simp add: history_extended_def list_all2_same split: prod.splits)

lemma history_extended_trans:
  assumes "history_extended s t" and "history_extended t u"
  shows "history_extended s u"
  using assms unfolding history_extended_def
  by (rule list_all2_trans [rotated]) (auto intro: prefix_order.trans)

lemma update_user_history:
  assumes "\<And>d. prefix (paymentHistory d) (paymentHistory (f d))"
  shows "list_all2 (\<lambda>(k, d) (k', d'). k = k' \<and> prefix (paymentHistory d) (paymentHistory d'))
     xs (update_user k f xs)"
  using assms by (induction xs) (auto simp: list_all2_same split: prod.splits)

lemma doc_update_history:
  assumes "\<And>d. prefix (paymentHistory d) (paymentHistory (f d))"
    and "doc_update k f s = Inr s'"
  shows "history_extended s s'"
  using assms(2) update_user_history [of f "users s" k, OF assms(1)]
  by (auto simp: doc_update_def history_extended_def split: option.splits)

lemma prefix_arrayUnion: "prefix xs (arrayUnion e xs)"
  by (simp add: arrayUnion_def)

lemma dispatch_event_history:
  assumes run: "dispatch_event clk ev s = Inr s'"
  shows "history_extended s s'"
proof -
  have paid: "history_extended s s'"
    if "doc_update k
          (\<lambda>u. u\<lparr>subscriptionStatus := Some ''active'',
                 lastPayment := Some (serverTimestamp clk),
                 paymentHistory := arrayUnion e (paymentHistory u)\<rparr>) s = Inr s'" for k e
    by (rule doc_update_history [OF _ that]) (simp add: prefix_arrayUnion)
  have deleted: "history_extended s s'"
    if "doc_update k
          (\<lambda>u. u\<lparr>subscriptionStatus := Some ''cancelled'',
                 subscriptionEndedAt := Some (serverTimestamp clk)\<rparr>) s = Inr s'" for k
    by (rule doc_update_history [OF _ that]) simp
  show ?thesis
    using run paid deleted
    by (auto simp: dispatch_event_def Let_def history_extended_refl split: if_splits list.splits)
qed

lemma webhook_history: "history_extended s (snd (webhook P JSON_parse webhookSecret clk body sig s))"
  by (auto simp: webhook_def history_extended_refl dispatch_event_history split: sum.splits)

lemma history_extended_doc_get:
  assumes "history_extended s s'" and "doc_get s k = Some d"
  shows "\<exists>d'. doc_get s' k = Some d' \<and> prefix (paymentHistory d) (paymentHistory d')"
proof -
  have "list_all2 (\<lambda>(k, d) (k', d'). k = k' \<and> prefix (paymentHistory d) (paymentHistory d')) xs ys
      \<Longrightarrow> map_of xs k = Some d
      \<Longrightarrow> \<exists>d'. map_of ys k = Some d' \<and> prefix (paymentHistory d) (paymentHistory d')" for xs ys
    by (induction xs ys rule: list_all2_induct) (auto split: if_splits)
  then show ?thesis
    using assms by (simp add: history_extended_def doc_get_def)
qed

lemma history_extended_keys:
  assumes "history_extended s t"
  shows "map fst (users t) = map fst (users s)"
proof -
  have "list_all2 (\<lambda>(k, d) (k', d'). k = k' \<and> prefix (paymentHistory d) (paymentHistory d')) xs ys
      \<Longrightarrow> map fst ys = map fst xs" for xs ys
    by (induction xs ys rule: list_all2_induct) auto
  then show ?thesis
    using assms by (simp add: history_extended_def)
qed


subsection \<open>The orchestrator\<close>

text \<open>The sample \<open>doc\<close> on some strings.\<close>

lemma client_doc_examples:
  "client_doc ''u0'' = Inr [''u0'']"
  "client_doc '''' = Inl (InvalidPath '''')"
  "client_doc ''a/b'' = Inl (InvalidPath ''a/b'')"
  "client_doc ''a//b/c'' = Inl (InvalidPath ''a//b/c'')"
  "client_doc ''u0/payment_methods/card_a'' = Inr [''u0'', ''payment_methods'', ''card_a'']"
  "client_doc ''/u1/'' = Inr [''u1'']"
  by (simp_all add: client_doc_def)

lemma invoke_eq:
  "invoke c f w =
     (fst (f (remote w)),
      w\<lparr>remote := snd (f (remote w)), calls := calls w @ [(c, succeeded (fst (f (remote w))))]\<rparr>)"
  by (simp add: invoke_def split: prod.split)

lemma invoke_ledger: "ledger (snd (invoke c f w)) = ledger w"
  by (simp add: invoke_eq)

lemma customers_created_append:
  "customers_created (xs @ ys) = customers_created xs + customers_created ys"
  by (simp add: customers_created_def)

lemma subscriptions_created_append:
  "subscriptions_created (xs @ ys) = subscriptions_created xs + subscriptions_created ys"
  by (simp add: subscriptions_created_def)

lemma customers_created_Nil: "customers_created [] = 0"
  by (simp add: customers_created_def)

lemma subscriptions_created_Nil: "subscriptions_created [] = 0"
  by (simp add: subscriptions_created_def)

lemma customers_created_Cons:
  "customers_created ((c, ok) # cs) = (if is_customers_create c \<and> ok then 1 else 0) + customers_created cs"
  by (simp add: customers_created_def)

lemma subscriptions_created_Cons:
  "subscriptions_created ((c, ok) # cs) = (if is_subscriptions_create c \<and> ok then 1 else 0) + subscriptions_created cs"
  by (simp add: subscriptions_created_def)

lemmas created_simps =
  customers_created_append subscriptions_created_append
  customers_created_Nil subscriptions_created_Nil
  customers_created_Cons subscriptions_created_Cons

lemma add_payment_method_users:
  "add_payment_method ref autoId c s = Inr s' \<Longrightarrow> users s' = users s"
  by (auto simp: add_payment_method_def Let_def split: option.splits)

lemma add_payment_log_users:
  "add_payment_log autoId e s = Inr s' \<Longrightarrow> users s' = users s"
  by (auto simp: add_payment_log_def split: option.splits)

lemma save_card_created:
  "customers_created (calls (snd (save_card P clk ref b w))) = customers_created (calls w)"
  "subscriptions_created (calls (snd (save_card P clk ref b w))) = subscriptions_created (calls w)"
  by (simp_all add: save_card_def invoke_eq created_simps case_prod_beta
      split: sum.splits option.splits)

lemma save_card_users:
  "users (ledger (snd (save_card P clk ref b w))) = users (ledger w)"
  by (auto simp: save_card_def invoke_eq case_prod_beta add_payment_method_users
      split: sum.splits option.splits)

lemma persist_subscription_created:
  "customers_created (calls (snd (persist_subscription P clk ref b cust sub cs w))) = customers_created (calls w)"
  "subscriptions_created (calls (snd (persist_subscription P clk ref b cust sub cs w))) = subscriptions_created (calls w)"
  by (simp_all add: persist_subscription_def case_prod_beta save_card_created
      split: sum.splits)

lemma set_default_and_subscribe_created:
  "customers_created (calls (snd (set_default_and_subscribe P clk ref b cust w))) = customers_created (calls w)"
  "subscriptions_created (calls (snd (set_default_and_subscribe P clk ref b cust w))) \<le> subscriptions_created (calls w) + 1"
  "\<not> is_error_response (fst (set_default_and_subscribe P clk ref b cust w)) \<Longrightarrow>
     subscriptions_created (calls (snd (set_default_and_subscribe P clk ref b cust w))) = subscriptions_created (calls w) + 1"
  by (simp_all add: set_default_and_subscribe_def invoke_eq case_prod_beta persist_subscription_created created_simps
      split: sum.splits)

lemma subscribe_customer_created:
  "customers_created (calls (snd (subscribe_customer P clk ref b cust w))) = customers_created (calls w)"
  "subscriptions_created (calls (snd (subscribe_customer P clk ref b cust w))) \<le> subscriptions_created (calls w) + 1"
  "\<not> is_error_response (fst (subscribe_customer P clk ref b cust w)) \<Longrightarrow>
     subscriptions_created (calls (snd (subscribe_customer P clk ref b cust w))) = subscriptions_created (calls w) + 1"
  using set_default_and_subscribe_created [of P clk ref b cust
      "snd (invoke (PaymentMethods_attach (paymentMethodId b) (customer_id cust))
             (paymentMethods_attach P (paymentMethodId b) (customer_id cust)) w)"]
  by (simp_all add: subscribe_customer_def case_prod_beta invoke_eq created_simps)

lemma resolve_customer_no_id:
  assumes "case ref_get (ledger w) ref of None \<Rightarrow> True | Some d \<Rightarrow> \<not> truthy (stripeCustomerId d)"
  shows "resolve_customer P ref b w = create_customer P b w"
  using assms by (auto simp: resolve_customer_def Let_def split: option.splits)

lemma resolve_customer_retrieved:
  assumes "ref_get (ledger w) ref = Some d"
    and "stripeCustomerId d = Some c" and "c \<noteq> []"
    and "customers_retrieve P c (remote w) = (Inr cust, p1)"
  shows "resolve_customer P ref b w =
     (Inr cust, w\<lparr>remote := p1, calls := calls w @ [(Customers_retrieve c, True)]\<rparr>)"
  using assms by (simp add: resolve_customer_def invoke_eq)

lemma create_customer_eq:
  "create_customer P b w =
     (fst (customers_create P (userEmail b) (userName b) (paymentMethodId b) (userId b) (remote w)),
      w\<lparr>remote := snd (customers_create P (userEmail b) (userName b) (paymentMethodId b) (userId b) (remote w)),
        calls := calls w @
          [(Customers_create (userEmail b) (userName b) (paymentMethodId b) (userId b),
            succeeded (fst (customers_create P (userEmail b) (userName b) (paymentMethodId b) (userId b) (remote w))))]\<rparr>)"
  by (simp add: create_customer_def invoke_eq)

lemma resolve_customer_ledger: "ledger (snd (resolve_customer P ref b w)) = ledger w"
  by (simp add: resolve_customer_def create_customer_def invoke_eq case_prod_beta Let_def
      split: option.splits sum.splits)

lemmas handler_defs =
  create_subscription_def resolve_customer_def create_customer_def subscribe_customer_def
  set_default_and_subscribe_def persist_subscription_def save_card_def get_client_secret_def
  cancel_subscription_def list_payment_methods_def invoke_def doc_update_def doc_get_def
  add_payment_method_def add_payment_log_def

lemmas sample_defs =
  sample_world_def sample_store_def sample_body_def sample_clock_def sample_stripe_def
  sample_subscription_def blank_user_def client_doc_def

text \<open>The handler run on the sample world: a new customer, a known customer, a rejected customer creation, an empty user id.\<close>

lemma sample_create_run:
  "create_subscription sample_stripe client_doc sample_clock sample_body sample_world =
     (SubscriptionCreated ''sub_1'' ''cus_2'' (Some ''pi_1_secret'') ''incomplete'',
      \<lparr>ledger =
         \<lparr>users =
            [(''u0'', blank_user\<lparr>stripeCustomerId := Some ''cus_2'',
                 subscriptionId := Some ''sub_1'',
                 subscriptionStatus := Some ''incomplete'',
                 subscriptionUpdatedAt := Some 1700000000\<rparr>),
             (''u1'', blank_user\<lparr>stripeCustomerId := Some ''cus_1''\<rparr>)],
          sub_docs =
            [([''u0'', ''payment_methods'', ''card_a''],
              \<lparr>user_fields = no_fields,
               card_fields = Some
                 \<lparr>card_paymentMethodId = ''pm_1'', card_brand = ''visa'', card_last4 = ''4242'',
                  card_expMonth = 12, card_expYear = 2030, card_isDefault = True,
                  card_createdAt = 1700000000\<rparr>\<rparr>)],
          payment_logs =
            [(''log_a'',
              \<lparr>log_userId = ''u0'', log_customerId = ''cus_2'', log_subscriptionId = ''sub_1'',
               log_amount = 999 / 100, log_currency = ''cad'', log_status = ''incomplete'',
               log_timestamp = 1700000000\<rparr>)]\<rparr>,
       remote = 2,
       calls =
         [(Customers_create ''a@b.com'' ''A'' ''pm_1'' ''u0'', True),
          (PaymentMethods_attach ''pm_1'' ''cus_2'', True),
          (Customers_update ''cus_2'' ''pm_1'', True),
          (Subscriptions_create ''cus_2'' ''price_1'' ''u0'', True),
          (PaymentMethods_retrieve ''pm_1'', True)]\<rparr>)"
  by (simp add: handler_defs sample_defs)

lemma map_of_update_sub:
  "map_of (update_sub p f xs) q =
     (if q = p then map_option (\<lambda>d. d\<lparr>user_fields := f (user_fields d)\<rparr>) (map_of xs p) else map_of xs q)"
  by (induction xs) auto

lemma update_sub_twice:
  assumes "\<And>d. g (f d) = g d"
  shows "update_sub p g (update_sub p f xs) = update_sub p g xs"
  using assms by (induction xs) auto

lemma ref_sub:
  assumes "\<forall>k. ref \<noteq> [k]"
  shows "ref_get s ref = map_option user_fields (map_of (sub_docs s) ref)"
    and "ref_update ref f s =
       (case map_of (sub_docs s) ref of
          None \<Rightarrow> Inl (NotFound ref)
        | Some d \<Rightarrow> Inr (s\<lparr>sub_docs := update_sub ref f (sub_docs s)\<rparr>))"
proof -
  consider "ref = []" | a b cs where "ref = a # b # cs"
    using assms by (cases ref; cases "tl ref") auto
  then show "ref_get s ref = map_option user_fields (map_of (sub_docs s) ref)"
    by cases simp_all
  consider "ref = []" | a b cs where "ref = a # b # cs"
    using assms by (cases ref; cases "tl ref") auto
  then show "ref_update ref f s =
       (case map_of (sub_docs s) ref of
          None \<Rightarrow> Inl (NotFound ref)
        | Some d \<Rightarrow> Inr (s\<lparr>sub_docs := update_sub ref f (sub_docs s)\<rparr>))"
    by cases (simp_all split: option.splits)
qed

lemma ref_update_missing:
  assumes "ref_get s ref = None"
  shows "ref_update ref f s = Inl (NotFound ref)"
proof (cases "\<exists>k. ref = [k]")
  case True
  then show ?thesis using assms by (auto simp: doc_update_def)
next
  case False
  then have "\<forall>k. ref \<noteq> [k]" by simp
  from ref_sub(1) [OF this, where s = s] ref_sub(2) [OF this, where s = s and f = f] assms
  show ?thesis by (simp split: option.splits)
qed

lemma ref_update_existing:
  assumes "ref_get s ref = Some d"
  shows "\<exists>s'. ref_update ref f s = Inr s' \<and> ref_get s' ref = Some (f d)
     \<and> payment_logs s' = payment_logs s"
proof (cases "\<exists>k. ref = [k]")
  case True
  then show ?thesis
    using assms by (auto simp: doc_update_def doc_get_def map_of_update_user)
next
  case False
  then have n: "\<forall>k. ref \<noteq> [k]" by simp
  from assms ref_sub(1) [OF n, where s = s] obtain sd where sd: "map_of (sub_docs s) ref = Some sd" "user_fields sd = d"
    by auto
  let ?s' = "s\<lparr>sub_docs := update_sub ref f (sub_docs s)\<rparr>"
  have "ref_update ref f s = Inr ?s'"
    using ref_sub(2) [OF n, where f = f and s = s] sd by simp
  moreover have "ref_get ?s' ref = Some (f d)"
    using ref_sub(1) [OF n, where s = ?s'] sd by (simp add: map_of_update_sub)
  ultimately show ?thesis by simp
qed

lemma ref_update_twice:
  assumes over: "\<And>d. g (f d) = g d"
    and first: "ref_update ref f s = Inr s1"
  shows "ref_update ref g s1 = ref_update ref g s"
proof (cases "\<exists>k. ref = [k]")
  case True
  then obtain k where k: "ref = [k]" by blast
  from first k have s1: "s1 = s\<lparr>users := update_user k f (users s)\<rparr>" and ex: "map_of (users s) k \<noteq> None"
    by (auto simp: doc_update_def doc_get_def split: option.splits)
  show ?thesis
    using ex by (auto simp: k s1 doc_update_def doc_get_def map_of_update_user
        update_user_twice [of g f, OF over])
next
  case False
  then have n: "\<forall>k. ref \<noteq> [k]" by simp
  from first ref_sub(2) [OF n, where f = f and s = s]
  have s1: "s1 = s\<lparr>sub_docs := update_sub ref f (sub_docs s)\<rparr>" and ex: "map_of (sub_docs s) ref \<noteq> None"
    by (auto split: option.splits)
  show ?thesis
    using ex ref_sub(2) [OF n, where f = g and s = s] ref_sub(2) [OF n, where f = g and s = s1]
    by (auto simp: s1 map_of_update_sub update_sub_twice [of g f, OF over])
qed

lemma ref_update_users_history:
  assumes keep: "\<And>d. prefix (paymentHistory d) (paymentHistory (f d))"
    and run: "ref_update ref f s = Inr s'"
  shows "history_extended s s'"
proof (cases "\<exists>k. ref = [k]")
  case True
  then obtain k where k: "ref = [k]" by blast
  show ?thesis using run unfolding k by (simp add: doc_update_history [OF keep])
next
  case False
  then have n: "\<forall>k. ref \<noteq> [k]" by simp
  from run ref_sub(2) [OF n, where f = f and s = s] have "users s' = users s"
    by (auto split: option.splits)
  then show ?thesis by (rule history_extended_same_users)
qed

lemma sample_create_known_customer_run:
  "create_subscription sample_stripe client_doc sample_clock (sample_body\<lparr>userId := ''u1'', saveCard := False\<rparr>) sample_world =
     (SubscriptionCreated ''sub_1'' ''cus_1'' (Some ''pi_1_secret'') ''incomplete'',
      \<lparr>ledger =
         \<lparr>users =
            [(''u0'', blank_user),
             (''u1'', blank_user\<lparr>stripeCustomerId := Some ''cus_1'',
                 subscriptionId := Some ''sub_1'',
                 subscriptionStatus := Some ''incomplete'',
                 subscriptionUpdatedAt := Some 1700000000\<rparr>)],
          sub_docs = [],
          payment_logs =
            [(''log_a'',
              \<lparr>log_userId = ''u1'', log_customerId = ''cus_1'', log_subscriptionId = ''sub_1'',
               log_amount = 999 / 100, log_currency = ''cad'', log_status = ''incomplete'',
               log_timestamp = 1700000000\<rparr>)]\<rparr>,
       remote = 1,
       calls =
         [(Customers_retrieve ''cus_1'', True),
          (PaymentMethods_attach ''pm_1'' ''cus_1'', True),
          (Customers_update ''cus_1'' ''pm_1'', True),
          (Subscriptions_create ''cus_1'' ''price_1'' ''u1'', True)]\<rparr>)"
  by (simp add: handler_defs sample_defs)

lemma sample_create_rejected_run:
  "create_subscription rejecting_stripe client_doc sample_clock sample_body sample_world =
     (Failure (StripeError ''No such PaymentMethod''),
      sample_world\<lparr>calls := [(Customers_create ''a@b.com'' ''A'' ''pm_1'' ''u0'', False)]\<rparr>)"
  by (simp add: handler_defs sample_defs rejecting_stripe_def)

lemma create_subscription_invalid_path:
  assumes "users_doc (userId b) = Inl err"
  shows "create_subscription P users_doc clk b w = (Failure err, w)"
  using assms by (simp add: create_subscription_def)

lemma sample_create_empty_user_id:
  "create_subscription sample_stripe client_doc sample_clock (sample_body\<lparr>userId := ''''\<rparr>) sample_world =
     (Failure (InvalidPath ''''), sample_world)"
  by (simp add: create_subscription_def client_doc_def)

text \<open>
  C7 (as amended). A create-subscription call whose \<open>userId\<close> is a document path, for
  a user whose document is missing or holds no truthy customer id, creates at most one
  customer (exactly one when the processor accepts the creation, none when it rejects it)
  and at most one subscription; it creates exactly one customer and exactly one
  subscription whenever the processor accepts the customer creation, the
  default-payment-method update and the subscription creation, and in particular
  whenever the call answers success. For a user whose stored customer id the processor
  retrieves, no customer is created. When the \<open>userId\<close> is not a document path the
  call answers with the error of the lookup and nothing is created.
\<close>

theorem create_subscription_creations:
  assumes run: "create_subscription P users_doc clk b w = (r, w')"
  shows "(\<forall>ref. users_doc (userId b) = Inr ref
            \<and> (case ref_get (ledger w) ref of None \<Rightarrow> True | Some d \<Rightarrow> \<not> truthy (stripeCustomerId d)) \<longrightarrow>
            customers_created (calls w') =
              customers_created (calls w) +
                (if succeeded (fst (customers_create P (userEmail b) (userName b) (paymentMethodId b) (userId b) (remote w)))
                 then 1 else 0)
          \<and> subscriptions_created (calls w') \<le> subscriptions_created (calls w) + 1
          \<and> (\<not> is_error_response r \<longrightarrow>
                customers_created (calls w') = customers_created (calls w) + 1
              \<and> subscriptions_created (calls w') = subscriptions_created (calls w) + 1)
          \<and> (\<forall>cust p1 a p2 u p3 sub p4.
                customers_create P (userEmail b) (userName b) (paymentMethodId b) (userId b) (remote w) = (Inr cust, p1)
              \<and> paymentMethods_attach P (paymentMethodId b) (customer_id cust) p1 = (a, p2)
              \<and> customers_update P (customer_id cust) (paymentMethodId b) p2 = (Inr u, p3)
              \<and> subscriptions_create P (customer_id cust) (priceId b) (userId b) p3 = (Inr sub, p4)
              \<longrightarrow> customers_created (calls w') = customers_created (calls w) + 1
                \<and> subscriptions_created (calls w') = subscriptions_created (calls w) + 1))
    \<and> (\<forall>ref d c cust p1.
          users_doc (userId b) = Inr ref
        \<and> ref_get (ledger w) ref = Some d \<and> stripeCustomerId d = Some c \<and> c \<noteq> []
        \<and> customers_retrieve P c (remote w) = (Inr cust, p1)
        \<longrightarrow> customers_created (calls w') = customers_created (calls w))
    \<and> (\<forall>err. users_doc (userId b) = Inl err \<longrightarrow> r = Failure err \<and> w' = w)"
proof -
  let ?cc = "customers_create P (userEmail b) (userName b) (paymentMethodId b) (userId b) (remote w)"
  from run have r: "r = fst (create_subscription P users_doc clk b w)"
    and w': "w' = snd (create_subscription P users_doc clk b w)"
    by simp_all
  have created: "customers_created (calls w') = customers_created (calls w) + (if succeeded (fst ?cc) then 1 else 0)"
    and at_most: "subscriptions_created (calls w') \<le> subscriptions_created (calls w) + 1"
    and success: "\<not> is_error_response r \<Longrightarrow>
        customers_created (calls w') = customers_created (calls w) + 1
      \<and> subscriptions_created (calls w') = subscriptions_created (calls w) + 1"
    if ref: "users_doc (userId b) = Inr ref"
      and no_id: "case ref_get (ledger w) ref of None \<Rightarrow> True | Some d \<Rightarrow> \<not> truthy (stripeCustomerId d)"
    for ref
  proof -
    note sub = subscribe_customer_created [of P clk ref b]
    note rc = resolve_customer_no_id [OF no_id, of P]
    show "customers_created (calls w') = customers_created (calls w) + (if succeeded (fst ?cc) then 1 else 0)"
      unfolding w'
      by (simp add: create_subscription_def ref rc create_customer_eq sub(1) created_simps
          split: sum.splits)
    show "subscriptions_created (calls w') \<le> subscriptions_created (calls w) + 1"
      unfolding w'
      by (auto simp: create_subscription_def ref rc create_customer_eq created_simps
          split: sum.splits intro!: order_trans [OF sub(2)])
    show "customers_created (calls w') = customers_created (calls w) + 1
      \<and> subscriptions_created (calls w') = subscriptions_created (calls w) + 1"
      if "\<not> is_error_response r"
      using that unfolding w' r
      by (simp add: create_subscription_def ref rc create_customer_eq sub(1) sub(3) created_simps
          split: sum.splits)
  qed
  have accepted: "customers_created (calls w') = customers_created (calls w) + 1
        \<and> subscriptions_created (calls w') = subscriptions_created (calls w) + 1"
    if ref: "users_doc (userId b) = Inr ref"
      and no_id: "case ref_get (ledger w) ref of None \<Rightarrow> True | Some d \<Rightarrow> \<not> truthy (stripeCustomerId d)"
      and ok: "?cc = (Inr cust, p1)
              \<and> paymentMethods_attach P (paymentMethodId b) (customer_id cust) p1 = (a, p2)
              \<and> customers_update P (customer_id cust) (paymentMethodId b) p2 = (Inr u, p3)
              \<and> subscriptions_create P (customer_id cust) (priceId b) (userId b) p3 = (Inr sub, p4)"
    for ref cust p1 a p2 u p3 sub p4
  proof -
    note rc = resolve_customer_no_id [OF no_id, of P]
    show ?thesis
      unfolding w' using ok
      by (simp add: create_subscription_def ref rc create_customer_eq subscribe_customer_def
          set_default_and_subscribe_def invoke_eq
          persist_subscription_created created_simps split: sum.splits)
  qed
  have retrieved: "customers_created (calls w') = customers_created (calls w)"
    if "users_doc (userId b) = Inr ref
        \<and> ref_get (ledger w) ref = Some d \<and> stripeCustomerId d = Some c \<and> c \<noteq> []
        \<and> customers_retrieve P c (remote w) = (Inr cust, p1)"
    for ref d c cust p1
  proof -
    from that have "resolve_customer P ref b w =
        (Inr cust, w\<lparr>remote := p1, calls := calls w @ [(Customers_retrieve c, True)]\<rparr>)"
      by (intro resolve_customer_retrieved) auto
    then show ?thesis
      unfolding w' using that
      by (simp add: create_subscription_def subscribe_customer_created(1) created_simps)
  qed
  have invalid: "r = Failure err \<and> w' = w" if "users_doc (userId b) = Inl err" for err
    using that unfolding r w' by (simp add: create_subscription_def)
  show ?thesis
    using created at_most success accepted retrieved invalid by blast
qed

theorem create_subscription_creations_witness:
  "customers_created (calls (snd (create_subscription sample_stripe client_doc sample_clock sample_body sample_world)))
     = customers_created (calls sample_world) + 1
   \<and> subscriptions_created (calls (snd (create_subscription sample_stripe client_doc sample_clock sample_body sample_world)))
     = subscriptions_created (calls sample_world) + 1
   \<and> customers_created
       (calls (snd (create_subscription sample_stripe client_doc sample_clock
          (sample_body\<lparr>userId := ''u1'', saveCard := False\<rparr>) sample_world)))
     = customers_created (calls sample_world)
   \<and> create_subscription sample_stripe client_doc sample_clock (sample_body\<lparr>userId := ''''\<rparr>) sample_world
     = (Failure (InvalidPath ''''), sample_world)"
proof -
  let ?new = "create_subscription sample_stripe client_doc sample_clock sample_body sample_world"
  let ?known = "create_subscription sample_stripe client_doc sample_clock
      (sample_body\<lparr>userId := ''u1'', saveCard := False\<rparr>) sample_world"
  let ?empty = "create_subscription sample_stripe client_doc sample_clock
      (sample_body\<lparr>userId := ''''\<rparr>) sample_world"
  have no_id: "client_doc (userId sample_body) = Inr [''u0'']
      \<and> (case ref_get (ledger sample_world) [''u0''] of
      None \<Rightarrow> True | Some d \<Rightarrow> \<not> truthy (stripeCustomerId d))"
    by (simp add: doc_get_def sample_defs)
  have ok: "\<not> is_error_response (fst ?new)"
    by (simp add: sample_create_run)
  have known: "client_doc (userId (sample_body\<lparr>userId := ''u1'', saveCard := False\<rparr>)) = Inr [''u1'']
      \<and> ref_get (ledger sample_world) [''u1'']
        = Some (blank_user\<lparr>stripeCustomerId := Some ''cus_1''\<rparr>)
      \<and> stripeCustomerId (blank_user\<lparr>stripeCustomerId := Some ''cus_1''\<rparr>) = Some ''cus_1''
      \<and> ''cus_1'' \<noteq> []
      \<and> customers_retrieve sample_stripe ''cus_1'' (remote sample_world) = (Inr \<lparr>customer_id = ''cus_1''\<rparr>, 0)"
    by (simp add: doc_get_def sample_defs)
  have empty: "client_doc (userId (sample_body\<lparr>userId := ''''\<rparr>)) = Inl (InvalidPath '''')"
    by (simp add: client_doc_def)
  have run_new: "?new = (fst ?new, snd ?new)" and run_known: "?known = (fst ?known, snd ?known)"
    and run_empty: "?empty = (fst ?empty, snd ?empty)"
    by simp_all
  from create_subscription_creations [OF run_new] no_id ok
  have "customers_created (calls (snd ?new)) = customers_created (calls sample_world) + 1
      \<and> subscriptions_created (calls (snd ?new)) = subscriptions_created (calls sample_world) + 1"
    by blast
  moreover
  from create_subscription_creations [OF run_known] known
  have "customers_created (calls (snd ?known)) = customers_created (calls sample_world)"
    by blast
  moreover
  from create_subscription_creations [OF run_empty] empty
  have "fst ?empty = Failure (InvalidPath '''') \<and> snd ?empty = sample_world"
    by blast
  then have "?empty = (Failure (InvalidPath ''''), sample_world)"
    by (simp add: prod_eq_iff)
  ultimately show ?thesis by simp
qed

text \<open>
  C7, as stated ("exactly one new customer and exactly one new subscription"), fails when the
  processor rejects the creation of the customer: no customer and no subscription are
  created, and the call answers with the error.
\<close>

theorem create_subscription_creations_counterexample:
  "client_doc (userId sample_body) = Inr [''u0'']
   \<and> ref_get (ledger sample_world) [''u0''] = Some blank_user
   \<and> stripeCustomerId blank_user = None
   \<and> create_subscription rejecting_stripe client_doc sample_clock sample_body sample_world =
       (Failure (StripeError ''No such PaymentMethod''),
        sample_world\<lparr>calls := [(Customers_create ''a@b.com'' ''A'' ''pm_1'' ''u0'', False)]\<rparr>)
   \<and> customers_created
        (calls (snd (create_subscription rejecting_stripe client_doc sample_clock sample_body sample_world)))
       = customers_created (calls sample_world)
   \<and> subscriptions_created
        (calls (snd (create_subscription rejecting_stripe client_doc sample_clock sample_body sample_world)))
       = subscriptions_created (calls sample_world)"
  by (simp add: sample_create_rejected_run created_simps)
     (simp add: doc_get_def sample_defs created_simps)

lemma save_card_same:
  assumes "same_effects w v"
    and "paymentMethods_retrieve P' = paymentMethods_retrieve P"
  shows "fst (save_card P' clk ref b w) = fst (save_card P clk ref b v)
    \<and> same_effects (snd (save_card P' clk ref b w)) (snd (save_card P clk ref b v))"
  using assms
  by (simp add: save_card_def invoke_eq case_prod_beta same_effects_def split: sum.splits option.splits)

lemma persist_subscription_same:
  assumes "same_effects w v"
    and "paymentMethods_retrieve P' = paymentMethods_retrieve P"
  shows "fst (persist_subscription P' clk ref b cust sub cs w) = fst (persist_subscription P clk ref b cust sub cs v)
    \<and> same_effects (snd (persist_subscription P' clk ref b cust sub cs w)) (snd (persist_subscription P clk ref b cust sub cs v))"
proof (cases "ref_update ref
             (\<lambda>u. u\<lparr>stripeCustomerId := Some (customer_id cust),
                    subscriptionId := Some (subscription_id sub),
                    subscriptionStatus := Some (status sub),
                    subscriptionUpdatedAt := Some (serverTimestamp clk)\<rparr>) (ledger v)")
  case (Inl e)
  then show ?thesis using assms(1) by (simp add: persist_subscription_def same_effects_def)
next
  case (Inr s')
  have "same_effects (w\<lparr>ledger := s'\<rparr>) (v\<lparr>ledger := s'\<rparr>)"
    using assms(1) by (simp add: same_effects_def)
  from save_card_same [OF this assms(2), of clk ref b] Inr assms(1) show ?thesis
    by (simp add: persist_subscription_def case_prod_beta same_effects_def split: sum.splits)
qed

lemma set_default_and_subscribe_same:
  assumes wv: "same_effects w v"
    and same: "customers_update P' = customers_update P" "subscriptions_create P' = subscriptions_create P"
      "paymentMethods_retrieve P' = paymentMethods_retrieve P"
  shows "fst (set_default_and_subscribe P' clk ref b cust w) = fst (set_default_and_subscribe P clk ref b cust v)
    \<and> same_effects (snd (set_default_and_subscribe P' clk ref b cust w))
         (snd (set_default_and_subscribe P clk ref b cust v))"
proof -
  let ?pm = "paymentMethodId b" and ?c = "customer_id cust"
  have rem: "remote w = remote v" using wv by (simp add: same_effects_def)
  define up where "up = customers_update P ?c ?pm (remote v)"
  define sc where "sc = subscriptions_create P ?c (priceId b) (userId b) (snd up)"
  show ?thesis
  proof (cases "fst up")
    case (Inl e)
    then show ?thesis
      using wv
      by (simp add: set_default_and_subscribe_def invoke_eq case_prod_beta same_effects_def
          same up_def [symmetric])
  next
    case up_ok: (Inr u)
    show ?thesis
    proof (cases "fst sc")
      case (Inl e)
      then show ?thesis
        using wv up_ok
        by (simp add: set_default_and_subscribe_def invoke_eq case_prod_beta same_effects_def
            same up_def [symmetric] sc_def [symmetric])
    next
      case sc_ok: (Inr sub)
      show ?thesis
      proof (cases "get_client_secret sub")
        case (Inl e)
        then show ?thesis
          using wv up_ok sc_ok
          by (simp add: set_default_and_subscribe_def invoke_eq case_prod_beta same_effects_def
              same up_def [symmetric] sc_def [symmetric])
      next
        case (Inr cs)
        let ?w3 = "w\<lparr>remote := snd sc,
            calls := calls w @
              [(Customers_update ?c ?pm, True),
               (Subscriptions_create ?c (priceId b) (userId b), True)]\<rparr>"
        let ?v3 = "v\<lparr>remote := snd sc,
            calls := calls v @
              [(Customers_update ?c ?pm, True),
               (Subscriptions_create ?c (priceId b) (userId b), True)]\<rparr>"
        have same3: "same_effects ?w3 ?v3"
          using wv by (simp add: same_effects_def)
        have l: "set_default_and_subscribe P' clk ref b cust w = persist_subscription P' clk ref b cust sub cs ?w3"
          using rem up_ok sc_ok Inr
          by (simp add: set_default_and_subscribe_def invoke_eq case_prod_beta
              same up_def [symmetric] sc_def [symmetric])
        have r: "set_default_and_subscribe P clk ref b cust v = persist_subscription P clk ref b cust sub cs ?v3"
          using up_ok sc_ok Inr
          by (simp add: set_default_and_subscribe_def invoke_eq case_prod_beta
              up_def [symmetric] sc_def [symmetric])
        show ?thesis
          unfolding l r by (rule persist_subscription_same [OF same3 same(3)])
      qed
    qed
  qed
qed

lemma subscribe_customer_attach_ignored:
  assumes g: "\<forall>pm c p. snd (g pm c p) = snd (paymentMethods_attach P pm c p)"
    and wv: "same_effects w v"
  shows "fst (subscribe_customer (P\<lparr>paymentMethods_attach := g\<rparr>) clk ref b cust w) = fst (subscribe_customer P clk ref b cust v)
    \<and> same_effects (snd (subscribe_customer (P\<lparr>paymentMethods_attach := g\<rparr>) clk ref b cust w))
         (snd (subscribe_customer P clk ref b cust v))"
proof -
  let ?P' = "P\<lparr>paymentMethods_attach := g\<rparr>"
  let ?pm = "paymentMethodId b" and ?c = "customer_id cust"
  let ?w1 = "snd (invoke (PaymentMethods_attach ?pm ?c) (paymentMethods_attach ?P' ?pm ?c) w)"
  let ?v1 = "snd (invoke (PaymentMethods_attach ?pm ?c) (paymentMethods_attach P ?pm ?c) v)"
  have "same_effects ?w1 ?v1"
    using wv g by (simp add: invoke_eq same_effects_def)
  from set_default_and_subscribe_same [OF this, of ?P' P clk ref b cust]
  show ?thesis
    by (simp add: subscribe_customer_def case_prod_beta)
qed

lemma create_subscription_attach_ignored:
  assumes g: "\<forall>pm c p. snd (g pm c p) = snd (paymentMethods_attach P pm c p)"
  shows "fst (create_subscription (P\<lparr>paymentMethods_attach := g\<rparr>) users_doc clk b w) = fst (create_subscription P users_doc clk b w)
    \<and> same_effects (snd (create_subscription (P\<lparr>paymentMethods_attach := g\<rparr>) users_doc clk b w))
         (snd (create_subscription P users_doc clk b w))"
proof -
  let ?P' = "P\<lparr>paymentMethods_attach := g\<rparr>"
  have cc: "create_customer ?P' b v = create_customer P b v" for v
    by (simp add: create_customer_def)
  have rc: "resolve_customer ?P' ref b w = resolve_customer P ref b w" for ref
    by (simp add: resolve_customer_def cc Let_def split: option.splits prod.splits sum.splits)
  have refl: "same_effects v v" for v :: "'a world"
    by (simp add: same_effects_def)
  show ?thesis
  proof (cases "users_doc (userId b)")
    case (Inl e)
    then show ?thesis by (simp add: create_subscription_def refl)
  next
    case ref: (Inr ref)
    show ?thesis
    proof (cases "fst (resolve_customer P ref b w)")
      case (Inl e)
      then show ?thesis
        by (simp add: create_subscription_def ref rc case_prod_beta refl)
    next
      case (Inr cust)
      then show ?thesis
        using subscribe_customer_attach_ignored [OF g refl, of clk ref b cust "snd (resolve_customer P ref b w)"]
        by (simp add: create_subscription_def ref rc case_prod_beta)
    qed
  qed
qed

text \<open>
  C6 (as amended). In create-subscription, once the customer has been resolved, no error
  of the attach fails the call, whether it says that the payment method is already
  attached or anything else. Whatever the attach returned, and in whatever state it left
  the processor: the next call is the
  setting of the default payment method; the call answers success, with everything
  written, whenever the steps after the attach succeed (from the state the attach
  left); and the value the attach returned is never looked at: with a processor whose
  attach returns another value and leaves the same processor state, the call ends with
  the same response, the same store, the same processor state and the same further
  calls.
\<close>

theorem attach_error_not_fatal:
  fixes P :: "'p stripe"
  assumes ref: "users_doc (userId b) = Inr ref"
    and rc: "resolve_customer P ref b w = (Inr cust, w1)"
    and att: "paymentMethods_attach P (paymentMethodId b) (customer_id cust) (remote w1) = (a, p2)"
  shows "(\<exists>ok rest.
            calls (snd (create_subscription P users_doc clk b w)) =
              calls w1 @
                [(PaymentMethods_attach (paymentMethodId b) (customer_id cust), succeeded a),
                 (Customers_update (customer_id cust) (paymentMethodId b), ok)] @ rest)
    \<and> (\<forall>u p3 sub p4 cs s5 w6 s7.
            customers_update P (customer_id cust) (paymentMethodId b) p2 = (Inr u, p3)
          \<and> subscriptions_create P (customer_id cust) (priceId b) (userId b) p3 = (Inr sub, p4)
          \<and> get_client_secret sub = Inr cs
          \<and> ref_update ref
               (\<lambda>u. u\<lparr>stripeCustomerId := Some (customer_id cust),
                      subscriptionId := Some (subscription_id sub),
                      subscriptionStatus := Some (status sub),
                      subscriptionUpdatedAt := Some (serverTimestamp clk)\<rparr>) (ledger w1) = Inr s5
          \<and> save_card P clk ref b
               (w1\<lparr>remote := p4,
                   calls := calls w1 @
                     [(PaymentMethods_attach (paymentMethodId b) (customer_id cust), succeeded a),
                      (Customers_update (customer_id cust) (paymentMethodId b), True),
                      (Subscriptions_create (customer_id cust) (priceId b) (userId b), True)],
                   ledger := s5\<rparr>) = (Inr (), w6)
          \<and> add_payment_log (logAutoId clk)
               \<lparr>log_userId = userId b,
                log_customerId = customer_id cust,
                log_subscriptionId = subscription_id sub,
                log_amount = 999 / 100,
                log_currency = ''cad'',
                log_status = status sub,
                log_timestamp = serverTimestamp clk\<rparr> (ledger w6) = Inr s7
          \<longrightarrow> create_subscription P users_doc clk b w =
                (SubscriptionCreated (subscription_id sub) (customer_id cust) cs (status sub),
                 w6\<lparr>ledger := s7\<rparr>))
    \<and> (\<forall>g. (\<forall>pm c p. snd (g pm c p) = snd (paymentMethods_attach P pm c p)) \<longrightarrow>
            fst (create_subscription (P\<lparr>paymentMethods_attach := g\<rparr>) users_doc clk b w)
              = fst (create_subscription P users_doc clk b w)
          \<and> same_effects (snd (create_subscription (P\<lparr>paymentMethods_attach := g\<rparr>) users_doc clk b w))
               (snd (create_subscription P users_doc clk b w)))"
proof (intro conjI allI impI)
  let ?pm = "paymentMethodId b" and ?c = "customer_id cust"
  let ?w2 = "w1\<lparr>remote := p2, calls := calls w1 @ [(PaymentMethods_attach ?pm ?c, succeeded a)]\<rparr>"
  have step: "create_subscription P users_doc clk b w = set_default_and_subscribe P clk ref b cust ?w2"
    using ref rc att by (simp add: create_subscription_def subscribe_customer_def invoke_eq)
  have "\<exists>ok rest. calls (snd (set_default_and_subscribe P clk ref b cust v)) =
      calls v @ [(Customers_update ?c ?pm, ok)] @ rest" for v
  proof -
    have sv: "\<exists>rest. calls (snd (save_card P clk ref b x)) = calls x @ rest" for x
      by (simp add: save_card_def invoke_eq case_prod_beta split: sum.splits option.splits)
    have ps: "\<exists>rest. calls (snd (persist_subscription P clk ref b cust sub cs x)) = calls x @ rest" for x sub cs
    proof (cases "ref_update ref
             (\<lambda>u. u\<lparr>stripeCustomerId := Some (customer_id cust),
                    subscriptionId := Some (subscription_id sub),
                    subscriptionStatus := Some (status sub),
                    subscriptionUpdatedAt := Some (serverTimestamp clk)\<rparr>) (ledger x)")
      case (Inl e)
      then show ?thesis by (simp add: persist_subscription_def)
    next
      case (Inr s')
      from sv [of "x\<lparr>ledger := s'\<rparr>"] Inr show ?thesis
        by (auto simp: persist_subscription_def case_prod_beta split: sum.splits)
    qed
    let ?up = "customers_update P ?c ?pm (remote v)"
    let ?v2 = "v\<lparr>remote := snd ?up, calls := calls v @ [(Customers_update ?c ?pm, succeeded (fst ?up))]\<rparr>"
    let ?sc = "subscriptions_create P ?c (priceId b) (userId b) (snd ?up)"
    let ?v3 = "?v2\<lparr>remote := snd ?sc,
        calls := calls ?v2 @ [(Subscriptions_create ?c (priceId b) (userId b), succeeded (fst ?sc))]\<rparr>"
    have "\<exists>rest. calls (snd (set_default_and_subscribe P clk ref b cust v)) = calls ?v2 @ rest"
    proof (cases "fst ?up")
      case (Inl e)
      then show ?thesis by (simp add: set_default_and_subscribe_def invoke_eq case_prod_beta)
    next
      case up: (Inr u)
      show ?thesis
      proof (cases "fst ?sc")
        case (Inl e)
        then show ?thesis using up by (simp add: set_default_and_subscribe_def invoke_eq case_prod_beta)
      next
        case sc: (Inr sub)
        show ?thesis
        proof (cases "get_client_secret sub")
          case (Inl e)
          then show ?thesis using up sc by (simp add: set_default_and_subscribe_def invoke_eq case_prod_beta)
        next
          case (Inr cs)
          from ps [of sub cs ?v3] obtain rest where
            "calls (snd (persist_subscription P clk ref b cust sub cs ?v3)) = calls ?v3 @ rest" ..
          then show ?thesis
            using up sc Inr by (simp add: set_default_and_subscribe_def invoke_eq case_prod_beta)
        qed
      qed
    qed
    then show ?thesis by auto
  qed
  from this [of ?w2] show "\<exists>ok rest.
      calls (snd (create_subscription P users_doc clk b w)) =
        calls w1 @ [(PaymentMethods_attach ?pm ?c, succeeded a), (Customers_update ?c ?pm, ok)] @ rest"
    unfolding step by auto
next
  fix u p3 sub p4 cs s5 w6 s7
  assume ok: "customers_update P (customer_id cust) (paymentMethodId b) p2 = (Inr u, p3)
          \<and> subscriptions_create P (customer_id cust) (priceId b) (userId b) p3 = (Inr sub, p4)
          \<and> get_client_secret sub = Inr cs
          \<and> ref_update ref
               (\<lambda>u. u\<lparr>stripeCustomerId := Some (customer_id cust),
                      subscriptionId := Some (subscription_id sub),
                      subscriptionStatus := Some (status sub),
                      subscriptionUpdatedAt := Some (serverTimestamp clk)\<rparr>) (ledger w1) = Inr s5
          \<and> save_card P clk ref b
               (w1\<lparr>remote := p4,
                   calls := calls w1 @
                     [(PaymentMethods_attach (paymentMethodId b) (customer_id cust), succeeded a),
                      (Customers_update (customer_id cust) (paymentMethodId b), True),
                      (Subscriptions_create (customer_id cust) (priceId b) (userId b), True)],
                   ledger := s5\<rparr>) = (Inr (), w6)
          \<and> add_payment_log (logAutoId clk)
               \<lparr>log_userId = userId b,
                log_customerId = customer_id cust,
                log_subscriptionId = subscription_id sub,
                log_amount = 999 / 100,
                log_currency = ''cad'',
                log_status = status sub,
                log_timestamp = serverTimestamp clk\<rparr> (ledger w6) = Inr s7"
  then show "create_subscription P users_doc clk b w =
      (SubscriptionCreated (subscription_id sub) (customer_id cust) cs (status sub), w6\<lparr>ledger := s7\<rparr>)"
    using ref rc att
    by (simp add: create_subscription_def subscribe_customer_def set_default_and_subscribe_def
        persist_subscription_def invoke_eq)
next
  fix g :: "string \<Rightarrow> string \<Rightarrow> 'p \<Rightarrow> (error + unit) \<times> 'p"
  assume g: "\<forall>pm c p. snd (g pm c p) = snd (paymentMethods_attach P pm c p)"
  from create_subscription_attach_ignored [OF g, of users_doc clk b w]
  show "fst (create_subscription (P\<lparr>paymentMethods_attach := g\<rparr>) users_doc clk b w)
      = fst (create_subscription P users_doc clk b w)"
    and "same_effects (snd (create_subscription (P\<lparr>paymentMethods_attach := g\<rparr>) users_doc clk b w))
      (snd (create_subscription P users_doc clk b w))"
    by simp_all
qed

text \<open>
  C6, in its second half ("any other attach error is fatal"), fails: with a processor
  whose attach rejects with "Your card was declined.", the call still sets the default
  payment method, creates the subscription, writes the store and answers success.
\<close>

theorem attach_error_fatal_counterexample:
  "paymentMethods_attach declining_stripe ''pm_1'' ''cus_2'' 1 = (Inl (StripeError ''Your card was declined.''), 1)
   \<and> create_subscription declining_stripe client_doc sample_clock sample_body sample_world =
     (SubscriptionCreated ''sub_1'' ''cus_2'' (Some ''pi_1_secret'') ''incomplete'',
      \<lparr>ledger = subscribed_store,
       remote = 2,
       calls =
         [(Customers_create ''a@b.com'' ''A'' ''pm_1'' ''u0'', True),
          (PaymentMethods_attach ''pm_1'' ''cus_2'', False),
          (Customers_update ''cus_2'' ''pm_1'', True),
          (Subscriptions_create ''cus_2'' ''price_1'' ''u0'', True),
          (PaymentMethods_retrieve ''pm_1'', True)]\<rparr>)"
  by (simp add: handler_defs sample_defs declining_stripe_def subscribed_store_def)

text \<open>
  A failed attach can make a later step fail: with a processor that refuses to make an
  unattached payment method the default, the call ends with the error of that step.
\<close>

lemma sample_create_strict_run:
  "create_subscription strict_stripe client_doc sample_clock sample_body sample_world =
     (Failure (StripeError ''The payment method is not attached''),
      sample_world\<lparr>calls :=
         [(Customers_create ''a@b.com'' ''A'' ''pm_1'' ''u0'', True),
          (PaymentMethods_attach ''pm_1'' ''cus_2'', False),
          (Customers_update ''cus_2'' ''pm_1'', False)]\<rparr>)"
  by (simp add: handler_defs sample_defs strict_stripe_def)

theorem attach_error_not_fatal_witness:
  "client_doc (userId sample_body) = Inr [''u0'']
   \<and> paymentMethods_attach declining_stripe (paymentMethodId sample_body) ''cus_2'' 1
       = (Inl (StripeError ''Your card was declined.''), 1)
   \<and> create_subscription declining_stripe client_doc sample_clock sample_body sample_world =
       (SubscriptionCreated ''sub_1'' ''cus_2'' (Some ''pi_1_secret'') ''incomplete'',
        \<lparr>ledger = subscribed_store,
         remote = 2,
         calls =
           [(Customers_create ''a@b.com'' ''A'' ''pm_1'' ''u0'', True),
            (PaymentMethods_attach ''pm_1'' ''cus_2'', False),
            (Customers_update ''cus_2'' ''pm_1'', True),
            (Subscriptions_create ''cus_2'' ''price_1'' ''u0'', True),
            (PaymentMethods_retrieve ''pm_1'', True)]\<rparr>)
   \<and> fst (create_subscription declining_stripe client_doc sample_clock sample_body sample_world)
       = fst (create_subscription sample_stripe client_doc sample_clock sample_body sample_world)
   \<and> same_effects (snd (create_subscription declining_stripe client_doc sample_clock sample_body sample_world))
        (snd (create_subscription sample_stripe client_doc sample_clock sample_body sample_world))"
proof -
  let ?cust = "\<lparr>customer_id = ''cus_2''\<rparr>"
  let ?w1 = "sample_world\<lparr>remote := 1, calls := [(Customers_create ''a@b.com'' ''A'' ''pm_1'' ''u0'', True)]\<rparr>"
  let ?s5 = "subscribed_store\<lparr>sub_docs := [], payment_logs := []\<rparr>"
  let ?w6 = "\<lparr>ledger = subscribed_store\<lparr>payment_logs := []\<rparr>, remote = 2,
      calls =
        [(Customers_create ''a@b.com'' ''A'' ''pm_1'' ''u0'', True),
         (PaymentMethods_attach ''pm_1'' ''cus_2'', False),
         (Customers_update ''cus_2'' ''pm_1'', True),
         (Subscriptions_create ''cus_2'' ''price_1'' ''u0'', True),
         (PaymentMethods_retrieve ''pm_1'', True)]\<rparr>"
  have ref: "client_doc (userId sample_body) = Inr [''u0'']"
    by (simp add: sample_defs)
  have rc: "resolve_customer declining_stripe [''u0''] sample_body sample_world = (Inr ?cust, ?w1)"
    by (simp add: handler_defs sample_defs declining_stripe_def)
  have att: "paymentMethods_attach declining_stripe (paymentMethodId sample_body) (customer_id ?cust) (remote ?w1)
      = (Inl (StripeError ''Your card was declined.''), 1)"
    by (simp add: declining_stripe_def)
  note t = attach_error_not_fatal [where users_doc = client_doc and b = sample_body
      and P = declining_stripe and w = sample_world and clk = sample_clock, OF ref rc att]
  have later: "customers_update declining_stripe (customer_id ?cust) (paymentMethodId sample_body) 1 = (Inr (), 1)
      \<and> subscriptions_create declining_stripe (customer_id ?cust) (priceId sample_body) (userId sample_body) 1
          = (Inr sample_subscription, 2)
      \<and> get_client_secret sample_subscription = Inr (Some ''pi_1_secret'')
      \<and> ref_update [''u0'']
           (\<lambda>u. u\<lparr>stripeCustomerId := Some (customer_id ?cust),
                  subscriptionId := Some (subscription_id sample_subscription),
                  subscriptionStatus := Some (status sample_subscription),
                  subscriptionUpdatedAt := Some (serverTimestamp sample_clock)\<rparr>) (ledger ?w1) = Inr ?s5
      \<and> save_card declining_stripe sample_clock [''u0''] sample_body
           (?w1\<lparr>remote := 2,
               calls := calls ?w1 @
                 [(PaymentMethods_attach (paymentMethodId sample_body) (customer_id ?cust),
                   succeeded (Inl (StripeError ''Your card was declined.'') :: error + unit)),
                  (Customers_update (customer_id ?cust) (paymentMethodId sample_body), True),
                  (Subscriptions_create (customer_id ?cust) (priceId sample_body) (userId sample_body), True)],
               ledger := ?s5\<rparr>) = (Inr (), ?w6)
      \<and> add_payment_log (logAutoId sample_clock)
           \<lparr>log_userId = userId sample_body,
            log_customerId = customer_id ?cust,
            log_subscriptionId = subscription_id sample_subscription,
            log_amount = 999 / 100,
            log_currency = ''cad'',
            log_status = status sample_subscription,
            log_timestamp = serverTimestamp sample_clock\<rparr> (ledger ?w6) = Inr subscribed_store"
    by (simp add: handler_defs sample_defs declining_stripe_def subscribed_store_def)
  from t later have run: "create_subscription declining_stripe client_doc sample_clock sample_body sample_world =
      (SubscriptionCreated (subscription_id sample_subscription) (customer_id ?cust) (Some ''pi_1_secret'')
         (status sample_subscription),
       ?w6\<lparr>ledger := subscribed_store\<rparr>)"
    by blast
  have g: "\<forall>pm c p. snd ((\<lambda>pm c n. (Inr (), n)) pm c p) = snd (paymentMethods_attach declining_stripe pm c p)"
    by (simp add: declining_stripe_def)
  have restored: "declining_stripe\<lparr>paymentMethods_attach := (\<lambda>pm c n. (Inr (), n))\<rparr> = sample_stripe"
    by (simp add: declining_stripe_def sample_stripe_def)
  note t3 = t [THEN conjunct2, THEN conjunct2, rule_format, of "\<lambda>pm c n. (Inr (), n)"]
  from t3 [OF g [rule_format]] have "fst (create_subscription (declining_stripe\<lparr>paymentMethods_attach := (\<lambda>pm c n. (Inr (), n))\<rparr>)
          client_doc sample_clock sample_body sample_world)
        = fst (create_subscription declining_stripe client_doc sample_clock sample_body sample_world)
      \<and> same_effects (snd (create_subscription (declining_stripe\<lparr>paymentMethods_attach := (\<lambda>pm c n. (Inr (), n))\<rparr>)
            client_doc sample_clock sample_body sample_world))
          (snd (create_subscription declining_stripe client_doc sample_clock sample_body sample_world))"
    by simp
  then have same: "fst (create_subscription declining_stripe client_doc sample_clock sample_body sample_world)
        = fst (create_subscription sample_stripe client_doc sample_clock sample_body sample_world)
      \<and> same_effects (snd (create_subscription declining_stripe client_doc sample_clock sample_body sample_world))
          (snd (create_subscription sample_stripe client_doc sample_clock sample_body sample_world))"
    unfolding restored by (auto simp: same_effects_def)
  show ?thesis
    using ref att run same by (simp add: sample_subscription_def)
qed

text \<open>
  C8 (as amended). When the \<open>userId\<close> names an existing document and the processor
  accepts the update both times, two cancel-subscription calls with the same subscription
  id and user id both answer success; each asks the processor to set
  \<open>cancel_at_period_end\<close> to true, and after each the document has
  \<open>cancelAtPeriodEnd = true\<close> and the status \<open>canceling\<close>; the store after both is
  the store after one call made at the second clock reading (only \<open>updatedAt\<close>
  differs from the store after the first). A call whose update the processor rejects
  answers with that error and writes nothing; a call whose \<open>userId\<close> is not a document
  path, or names no existing document, answers with the error of the store after the
  processor was updated, and writes nothing.
\<close>

theorem cancel_subscription_twice:
  fixes P :: "'p stripe"
  shows "(\<forall>ref d sub1 p1 sub2 p2.
            users_doc (cancel_userId b) = Inr ref \<and> ref_get (ledger w) ref = Some d
          \<and> subscriptions_update P (cancel_subscriptionId b) True (remote w) = (Inr sub1, p1)
          \<and> subscriptions_update P (cancel_subscriptionId b) True p1 = (Inr sub2, p2)
          \<longrightarrow> (\<exists>s1 s2.
                  ref_update ref (canceling clk1) (ledger w) = Inr s1
                \<and> ref_update ref (canceling clk2) (ledger w) = Inr s2
                \<and> cancel_subscription P users_doc clk1 b w =
                    (CancelScheduled,
                     w\<lparr>remote := p1,
                       calls := calls w @ [(Subscriptions_update (cancel_subscriptionId b) True, True)],
                       ledger := s1\<rparr>)
                \<and> cancel_subscription P users_doc clk2 b
                     (w\<lparr>remote := p1,
                        calls := calls w @ [(Subscriptions_update (cancel_subscriptionId b) True, True)],
                        ledger := s1\<rparr>) =
                    (CancelScheduled,
                     w\<lparr>remote := p2,
                       calls := calls w @
                         [(Subscriptions_update (cancel_subscriptionId b) True, True),
                          (Subscriptions_update (cancel_subscriptionId b) True, True)],
                       ledger := s2\<rparr>)
                \<and> ref_get s1 ref = Some (canceling clk1 d)
                \<and> ref_get s2 ref = Some (canceling clk2 d)
                \<and> canceling clk2 d = (canceling clk1 d)\<lparr>updatedAt := Some (serverTimestamp clk2)\<rparr>
                \<and> cancelAtPeriodEnd (canceling clk1 d) = Some True
                \<and> subscriptionStatus (canceling clk1 d) = Some ''canceling''
                \<and> cancelAtPeriodEnd (canceling clk2 d) = Some True
                \<and> subscriptionStatus (canceling clk2 d) = Some ''canceling''))
    \<and> (\<forall>err p1.
            subscriptions_update P (cancel_subscriptionId b) True (remote w) = (Inl err, p1)
          \<longrightarrow> cancel_subscription P users_doc clk1 b w =
                (Failure err,
                 w\<lparr>remote := p1,
                   calls := calls w @ [(Subscriptions_update (cancel_subscriptionId b) True, False)]\<rparr>))
    \<and> (\<forall>sub1 p1 err.
            subscriptions_update P (cancel_subscriptionId b) True (remote w) = (Inr sub1, p1)
          \<and> users_doc (cancel_userId b) = Inl err
          \<longrightarrow> cancel_subscription P users_doc clk1 b w =
                (Failure err,
                 w\<lparr>remote := p1,
                   calls := calls w @ [(Subscriptions_update (cancel_subscriptionId b) True, True)]\<rparr>))
    \<and> (\<forall>sub1 p1 ref.
            subscriptions_update P (cancel_subscriptionId b) True (remote w) = (Inr sub1, p1)
          \<and> users_doc (cancel_userId b) = Inr ref \<and> ref_get (ledger w) ref = None
          \<longrightarrow> cancel_subscription P users_doc clk1 b w =
                (Failure (NotFound ref),
                 w\<lparr>remote := p1,
                   calls := calls w @ [(Subscriptions_update (cancel_subscriptionId b) True, True)]\<rparr>))"
proof (intro conjI allI impI)
  fix ref d sub1 p1 sub2 p2
  assume h: "users_doc (cancel_userId b) = Inr ref \<and> ref_get (ledger w) ref = Some d
          \<and> subscriptions_update P (cancel_subscriptionId b) True (remote w) = (Inr sub1, p1)
          \<and> subscriptions_update P (cancel_subscriptionId b) True p1 = (Inr sub2, p2)"
  let ?call = "(Subscriptions_update (cancel_subscriptionId b) True, True)"
  from h ref_update_existing [of "ledger w" ref d "canceling clk1"]
  obtain s1 where s1: "ref_update ref (canceling clk1) (ledger w) = Inr s1"
    and get1: "ref_get s1 ref = Some (canceling clk1 d)"
    by blast
  from h ref_update_existing [of "ledger w" ref d "canceling clk2"]
  obtain s2 where s2: "ref_update ref (canceling clk2) (ledger w) = Inr s2"
    and get2: "ref_get s2 ref = Some (canceling clk2 d)"
    by blast
  have over: "canceling clk2 (canceling clk1 u) = canceling clk2 u" for u
    by (simp add: canceling_def)
  have again: "ref_update ref (canceling clk2) s1 = Inr s2"
    using ref_update_twice [of "canceling clk2" "canceling clk1", OF over s1] s2 by simp
  let ?w1 = "w\<lparr>remote := p1, calls := calls w @ [?call], ledger := s1\<rparr>"
  have r1: "cancel_subscription P users_doc clk1 b w = (CancelScheduled, ?w1)"
    using h s1 by (simp add: cancel_subscription_def invoke_eq)
  have r2: "cancel_subscription P users_doc clk2 b ?w1 =
      (CancelScheduled, w\<lparr>remote := p2, calls := calls w @ [?call, ?call], ledger := s2\<rparr>)"
    using h again by (simp add: cancel_subscription_def invoke_eq)
  have fields: "canceling clk2 d = (canceling clk1 d)\<lparr>updatedAt := Some (serverTimestamp clk2)\<rparr>
      \<and> cancelAtPeriodEnd (canceling clk1 d) = Some True
      \<and> subscriptionStatus (canceling clk1 d) = Some ''canceling''
      \<and> cancelAtPeriodEnd (canceling clk2 d) = Some True
      \<and> subscriptionStatus (canceling clk2 d) = Some ''canceling''"
    by (simp add: canceling_def)
  show "\<exists>s1 s2.
        ref_update ref (canceling clk1) (ledger w) = Inr s1
      \<and> ref_update ref (canceling clk2) (ledger w) = Inr s2
      \<and> cancel_subscription P users_doc clk1 b w =
          (CancelScheduled, w\<lparr>remote := p1, calls := calls w @ [?call], ledger := s1\<rparr>)
      \<and> cancel_subscription P users_doc clk2 b
           (w\<lparr>remote := p1, calls := calls w @ [?call], ledger := s1\<rparr>) =
          (CancelScheduled, w\<lparr>remote := p2, calls := calls w @ [?call, ?call], ledger := s2\<rparr>)
      \<and> ref_get s1 ref = Some (canceling clk1 d)
      \<and> ref_get s2 ref = Some (canceling clk2 d)
      \<and> canceling clk2 d = (canceling clk1 d)\<lparr>updatedAt := Some (serverTimestamp clk2)\<rparr>
      \<and> cancelAtPeriodEnd (canceling clk1 d) = Some True
      \<and> subscriptionStatus (canceling clk1 d) = Some ''canceling''
      \<and> cancelAtPeriodEnd (canceling clk2 d) = Some True
      \<and> subscriptionStatus (canceling clk2 d) = Some ''canceling''"
    using s1 s2 r1 r2 get1 get2 fields by blast
next
  fix err p1
  assume "subscriptions_update P (cancel_subscriptionId b) True (remote w) = (Inl err, p1)"
  then show "cancel_subscription P users_doc clk1 b w =
      (Failure err,
       w\<lparr>remote := p1, calls := calls w @ [(Subscriptions_update (cancel_subscriptionId b) True, False)]\<rparr>)"
    by (simp add: cancel_subscription_def invoke_eq)
next
  fix sub1 p1 err
  assume "subscriptions_update P (cancel_subscriptionId b) True (remote w) = (Inr sub1, p1)
      \<and> users_doc (cancel_userId b) = Inl err"
  then show "cancel_subscription P users_doc clk1 b w =
      (Failure err,
       w\<lparr>remote := p1, calls := calls w @ [(Subscriptions_update (cancel_subscriptionId b) True, True)]\<rparr>)"
    by (simp add: cancel_subscription_def invoke_eq)
next
  fix sub1 p1 ref
  assume "subscriptions_update P (cancel_subscriptionId b) True (remote w) = (Inr sub1, p1)
      \<and> users_doc (cancel_userId b) = Inr ref \<and> ref_get (ledger w) ref = None"
  then show "cancel_subscription P users_doc clk1 b w =
      (Failure (NotFound ref),
       w\<lparr>remote := p1, calls := calls w @ [(Subscriptions_update (cancel_subscriptionId b) True, True)]\<rparr>)"
    using ref_update_missing [of "ledger w" ref "canceling clk1"]
    by (simp add: cancel_subscription_def invoke_eq)
qed

text \<open>
  C8, as stated for every subscription id and user id, fails. With a processor that
  accepts the update once and rejects it afterwards (the subscription has ended), the
  first call succeeds and leaves \<open>cancelAtPeriodEnd = true\<close>, and the second call answers
  with the error. For a user id with no document, the processor is updated and the call
  answers with the error of the store update.
\<close>

theorem cancel_subscription_twice_counterexample:
  "cancel_subscription expiring_stripe client_doc sample_clock sample_cancel sample_world
     = (CancelScheduled, cancelled_once)
   \<and> cancel_subscription expiring_stripe client_doc later_clock sample_cancel cancelled_once
     = (Failure (StripeError ''No such subscription''),
        cancelled_once\<lparr>calls := [(Subscriptions_update ''sub_1'' True, True),
                                   (Subscriptions_update ''sub_1'' True, False)]\<rparr>)
   \<and> ref_get (ledger sample_world) [''u9''] = None
   \<and> cancel_subscription sample_stripe client_doc sample_clock
        \<lparr>cancel_subscriptionId = ''sub_1'', cancel_userId = ''u9''\<rparr> sample_world
       = (Failure (NotFound [''u9'']),
          sample_world\<lparr>calls := [(Subscriptions_update ''sub_1'' True, True)]\<rparr>)"
  by (simp add: handler_defs sample_defs expiring_stripe_def sample_cancel_def cancelled_once_def
      later_clock_def canceling_def)

theorem cancel_subscription_twice_witness:
  "(\<exists>s1 s2.
      ref_update [''u1''] (canceling sample_clock) (ledger sample_world) = Inr s1
    \<and> ref_update [''u1''] (canceling later_clock) (ledger sample_world) = Inr s2
    \<and> cancel_subscription sample_stripe client_doc sample_clock sample_cancel sample_world =
        (CancelScheduled,
         sample_world\<lparr>remote := 0,
           calls := calls sample_world @ [(Subscriptions_update (cancel_subscriptionId sample_cancel) True, True)],
           ledger := s1\<rparr>)
    \<and> cancel_subscription sample_stripe client_doc later_clock sample_cancel
         (sample_world\<lparr>remote := 0,
            calls := calls sample_world @ [(Subscriptions_update (cancel_subscriptionId sample_cancel) True, True)],
            ledger := s1\<rparr>) =
        (CancelScheduled,
         sample_world\<lparr>remote := 0,
           calls := calls sample_world @
             [(Subscriptions_update (cancel_subscriptionId sample_cancel) True, True),
              (Subscriptions_update (cancel_subscriptionId sample_cancel) True, True)],
           ledger := s2\<rparr>)
    \<and> ref_get s1 [''u1''] = Some (canceling sample_clock (blank_user\<lparr>stripeCustomerId := Some ''cus_1''\<rparr>))
    \<and> ref_get s2 [''u1''] = Some (canceling later_clock (blank_user\<lparr>stripeCustomerId := Some ''cus_1''\<rparr>)))
   \<and> cancel_subscription expiring_stripe client_doc later_clock sample_cancel cancelled_once =
       (Failure (StripeError ''No such subscription''),
        cancelled_once\<lparr>remote := 1,
          calls := calls cancelled_once @ [(Subscriptions_update (cancel_subscriptionId sample_cancel) True, False)]\<rparr>)
   \<and> cancel_subscription sample_stripe client_doc sample_clock (sample_cancel\<lparr>cancel_userId := ''''\<rparr>) sample_world =
       (Failure (InvalidPath ''''),
        sample_world\<lparr>remote := 0,
          calls := calls sample_world @ [(Subscriptions_update ''sub_1'' True, True)]\<rparr>)
   \<and> cancel_subscription sample_stripe client_doc sample_clock (sample_cancel\<lparr>cancel_userId := ''u9''\<rparr>) sample_world =
       (Failure (NotFound [''u9'']),
        sample_world\<lparr>remote := 0,
          calls := calls sample_world @ [(Subscriptions_update ''sub_1'' True, True)]\<rparr>)"
proof -
  have twice: "client_doc (cancel_userId sample_cancel) = Inr [''u1'']
      \<and> ref_get (ledger sample_world) [''u1''] = Some (blank_user\<lparr>stripeCustomerId := Some ''cus_1''\<rparr>)
      \<and> subscriptions_update sample_stripe (cancel_subscriptionId sample_cancel) True (remote sample_world)
          = (Inr sample_subscription, 0)
      \<and> subscriptions_update sample_stripe (cancel_subscriptionId sample_cancel) True 0
          = (Inr sample_subscription, 0)"
    by (simp add: doc_get_def sample_defs sample_cancel_def)
  have rejected: "subscriptions_update expiring_stripe (cancel_subscriptionId sample_cancel) True (remote cancelled_once)
      = (Inl (StripeError ''No such subscription''), 1)"
    by (simp add: expiring_stripe_def cancelled_once_def)
  have invalid: "subscriptions_update sample_stripe (cancel_subscriptionId (sample_cancel\<lparr>cancel_userId := ''''\<rparr>)) True
        (remote sample_world) = (Inr sample_subscription, 0)
      \<and> client_doc (cancel_userId (sample_cancel\<lparr>cancel_userId := ''''\<rparr>)) = Inl (InvalidPath '''')"
    by (simp add: sample_defs sample_cancel_def)
  have missing: "subscriptions_update sample_stripe (cancel_subscriptionId (sample_cancel\<lparr>cancel_userId := ''u9''\<rparr>)) True
        (remote sample_world) = (Inr sample_subscription, 0)
      \<and> client_doc (cancel_userId (sample_cancel\<lparr>cancel_userId := ''u9''\<rparr>)) = Inr [''u9'']
      \<and> ref_get (ledger sample_world) [''u9''] = None"
    by (simp add: doc_get_def sample_defs sample_cancel_def)
  note a = cancel_subscription_twice [where P = sample_stripe and users_doc = client_doc
      and b = sample_cancel and w = sample_world and ?clk1.0 = sample_clock and ?clk2.0 = later_clock,
      THEN conjunct1, rule_format, OF twice]
  note b = cancel_subscription_twice [where P = expiring_stripe and users_doc = client_doc
      and b = sample_cancel and w = cancelled_once and ?clk1.0 = later_clock and ?clk2.0 = later_clock,
      THEN conjunct2, THEN conjunct1, rule_format, OF rejected]
  note c = cancel_subscription_twice [where P = sample_stripe and users_doc = client_doc
      and b = "sample_cancel\<lparr>cancel_userId := ''''\<rparr>" and w = sample_world
      and ?clk1.0 = sample_clock and ?clk2.0 = later_clock,
      THEN conjunct2, THEN conjunct2, THEN conjunct1, rule_format, OF invalid]
  note d = cancel_subscription_twice [where P = sample_stripe and users_doc = client_doc
      and b = "sample_cancel\<lparr>cancel_userId := ''u9''\<rparr>" and w = sample_world
      and ?clk1.0 = sample_clock and ?clk2.0 = later_clock,
      THEN conjunct2, THEN conjunct2, THEN conjunct2, rule_format, OF missing]
  from a have a': "\<exists>s1 s2.
      ref_update [''u1''] (canceling sample_clock) (ledger sample_world) = Inr s1
    \<and> ref_update [''u1''] (canceling later_clock) (ledger sample_world) = Inr s2
    \<and> cancel_subscription sample_stripe client_doc sample_clock sample_cancel sample_world =
        (CancelScheduled,
         sample_world\<lparr>remote := 0,
           calls := calls sample_world @ [(Subscriptions_update (cancel_subscriptionId sample_cancel) True, True)],
           ledger := s1\<rparr>)
    \<and> cancel_subscription sample_stripe client_doc later_clock sample_cancel
         (sample_world\<lparr>remote := 0,
            calls := calls sample_world @ [(Subscriptions_update (cancel_subscriptionId sample_cancel) True, True)],
            ledger := s1\<rparr>) =
        (CancelScheduled,
         sample_world\<lparr>remote := 0,
           calls := calls sample_world @
             [(Subscriptions_update (cancel_subscriptionId sample_cancel) True, True),
              (Subscriptions_update (cancel_subscriptionId sample_cancel) True, True)],
           ledger := s2\<rparr>)
    \<and> ref_get s1 [''u1''] = Some (canceling sample_clock (blank_user\<lparr>stripeCustomerId := Some ''cus_1''\<rparr>))
    \<and> ref_get s2 [''u1''] = Some (canceling later_clock (blank_user\<lparr>stripeCustomerId := Some ''cus_1''\<rparr>))"
    by blast
  from c have c': "cancel_subscription sample_stripe client_doc sample_clock (sample_cancel\<lparr>cancel_userId := ''''\<rparr>) sample_world =
       (Failure (InvalidPath ''''),
        sample_world\<lparr>remote := 0,
          calls := calls sample_world @ [(Subscriptions_update ''sub_1'' True, True)]\<rparr>)"
    by (simp add: sample_cancel_def)
  from d have d': "cancel_subscription sample_stripe client_doc sample_clock (sample_cancel\<lparr>cancel_userId := ''u9''\<rparr>) sample_world =
       (Failure (NotFound [''u9'']),
        sample_world\<lparr>remote := 0,
          calls := calls sample_world @ [(Subscriptions_update ''sub_1'' True, True)]\<rparr>)"
    by (simp add: sample_cancel_def)
  from a' b c' d' show ?thesis by blast
qed

lemma persist_subscription_missing_document:
  assumes "ref_get (ledger w) ref = None"
  shows "persist_subscription P clk ref b cust sub cs w = (Failure (NotFound ref), w)"
  using assms ref_update_missing [of "ledger w" ref]
  by (simp add: persist_subscription_def)

lemma subscribe_customer_missing_document:
  assumes "ref_get (ledger w) ref = None"
  shows "is_error_response (fst (subscribe_customer P clk ref b cust w))
    \<and> ledger (snd (subscribe_customer P clk ref b cust w)) = ledger w"
  using assms
  by (simp add: subscribe_customer_def set_default_and_subscribe_def invoke_eq case_prod_beta
      persist_subscription_missing_document split: sum.splits)

text \<open>
  C10 (as amended). When the store has no document for the \<open>userId\<close> of a
  create-subscription request, the call answers with the error response and writes
  nothing to the store. The error is that of the first step that fails: the lookup, with
  no processor call made, when the \<open>userId\<close> is not a document path; the customer
  creation, the setting of the default payment method, the subscription creation or the
  read of the client secret when the processor rejects one of them; and otherwise the
  update of the missing document at step 6, after the customer and the subscription
  have been created at the processor.
\<close>

theorem create_subscription_missing_document:
  fixes P :: "'p stripe"
  assumes missing: "case users_doc (userId b) of Inl err \<Rightarrow> True | Inr ref \<Rightarrow> ref_get (ledger w) ref = None"
  shows "is_error_response (fst (create_subscription P users_doc clk b w))
    \<and> ledger (snd (create_subscription P users_doc clk b w)) = ledger w
    \<and> (\<forall>err. users_doc (userId b) = Inl err \<longrightarrow>
          create_subscription P users_doc clk b w = (Failure err, w))
    \<and> (\<forall>ref err p1.
          users_doc (userId b) = Inr ref
        \<and> customers_create P (userEmail b) (userName b) (paymentMethodId b) (userId b) (remote w) = (Inl err, p1)
        \<longrightarrow> create_subscription P users_doc clk b w =
              (Failure err,
               w\<lparr>remote := p1,
                 calls := calls w @
                   [(Customers_create (userEmail b) (userName b) (paymentMethodId b) (userId b), False)]\<rparr>))
    \<and> (\<forall>ref cust p1 a p2 err p3.
          users_doc (userId b) = Inr ref
        \<and> customers_create P (userEmail b) (userName b) (paymentMethodId b) (userId b) (remote w) = (Inr cust, p1)
        \<and> paymentMethods_attach P (paymentMethodId b) (customer_id cust) p1 = (a, p2)
        \<and> customers_update P (customer_id cust) (paymentMethodId b) p2 = (Inl err, p3)
        \<longrightarrow> create_subscription P users_doc clk b w =
              (Failure err,
               w\<lparr>remote := p3,
                 calls := calls w @
                   [(Customers_create (userEmail b) (userName b) (paymentMethodId b) (userId b), True),
                    (PaymentMethods_attach (paymentMethodId b) (customer_id cust), succeeded a),
                    (Customers_update (customer_id cust) (paymentMethodId b), False)]\<rparr>))
    \<and> (\<forall>ref cust p1 a p2 u p3 err p4.
          users_doc (userId b) = Inr ref
        \<and> customers_create P (userEmail b) (userName b) (paymentMethodId b) (userId b) (remote w) = (Inr cust, p1)
        \<and> paymentMethods_attach P (paymentMethodId b) (customer_id cust) p1 = (a, p2)
        \<and> customers_update P (customer_id cust) (paymentMethodId b) p2 = (Inr u, p3)
        \<and> subscriptions_create P (customer_id cust) (priceId b) (userId b) p3 = (Inl err, p4)
        \<longrightarrow> create_subscription P users_doc clk b w =
              (Failure err,
               w\<lparr>remote := p4,
                 calls := calls w @
                   [(Customers_create (userEmail b) (userName b) (paymentMethodId b) (userId b), True),
                    (PaymentMethods_attach (paymentMethodId b) (customer_id cust), succeeded a),
                    (Customers_update (customer_id cust) (paymentMethodId b), True),
                    (Subscriptions_create (customer_id cust) (priceId b) (userId b), False)]\<rparr>))
    \<and> (\<forall>ref cust p1 a p2 u p3 sub p4 err.
          users_doc (userId b) = Inr ref
        \<and> customers_create P (userEmail b) (userName b) (paymentMethodId b) (userId b) (remote w) = (Inr cust, p1)
        \<and> paymentMethods_attach P (paymentMethodId b) (customer_id cust) p1 = (a, p2)
        \<and> customers_update P (customer_id cust) (paymentMethodId b) p2 = (Inr u, p3)
        \<and> subscriptions_create P (customer_id cust) (priceId b) (userId b) p3 = (Inr sub, p4)
        \<and> get_client_secret sub = Inl err
        \<longrightarrow> create_subscription P users_doc clk b w =
              (Failure err,
               w\<lparr>remote := p4,
                 calls := calls w @
                   [(Customers_create (userEmail b) (userName b) (paymentMethodId b) (userId b), True),
                    (PaymentMethods_attach (paymentMethodId b) (customer_id cust), succeeded a),
                    (Customers_update (customer_id cust) (paymentMethodId b), True),
                    (Subscriptions_create (customer_id cust) (priceId b) (userId b), True)]\<rparr>))
    \<and> (\<forall>ref cust p1 a p2 u p3 sub p4 cs.
          users_doc (userId b) = Inr ref
        \<and> customers_create P (userEmail b) (userName b) (paymentMethodId b) (userId b) (remote w) = (Inr cust, p1)
        \<and> paymentMethods_attach P (paymentMethodId b) (customer_id cust) p1 = (a, p2)
        \<and> customers_update P (customer_id cust) (paymentMethodId b) p2 = (Inr u, p3)
        \<and> subscriptions_create P (customer_id cust) (priceId b) (userId b) p3 = (Inr sub, p4)
        \<and> get_client_secret sub = Inr cs
        \<longrightarrow> create_subscription P users_doc clk b w =
              (Failure (NotFound ref),
               w\<lparr>remote := p4,
                 calls := calls w @
                   [(Customers_create (userEmail b) (userName b) (paymentMethodId b) (userId b), True),
                    (PaymentMethods_attach (paymentMethodId b) (customer_id cust), succeeded a),
                    (Customers_update (customer_id cust) (paymentMethodId b), True),
                    (Subscriptions_create (customer_id cust) (priceId b) (userId b), True)]\<rparr>))"
proof -
  have inv: "create_subscription P users_doc clk b w = (Failure err, w)"
    if "users_doc (userId b) = Inl err" for err
    using that by (simp add: create_subscription_def)
  have none: "ref_get (ledger w) ref = None" if "users_doc (userId b) = Inr ref" for ref
    using missing that by simp
  have no_id: "case ref_get (ledger w) ref of None \<Rightarrow> True | Some d \<Rightarrow> \<not> truthy (stripeCustomerId d)"
    if "users_doc (userId b) = Inr ref" for ref
    using none [OF that] by simp
  have general: "is_error_response (fst (create_subscription P users_doc clk b w))
      \<and> ledger (snd (create_subscription P users_doc clk b w)) = ledger w"
  proof (cases "users_doc (userId b)")
    case (Inl err)
    then show ?thesis by (simp add: inv)
  next
    case (Inr ref)
    have led: "ledger (snd (resolve_customer P ref b w)) = ledger w"
      by (rule resolve_customer_ledger)
    then have miss': "ref_get (ledger (snd (resolve_customer P ref b w))) ref = None"
      using none [OF Inr] by simp
    show ?thesis
      using subscribe_customer_missing_document [OF miss', of P clk] led Inr
      by (simp add: create_subscription_def case_prod_beta split: sum.splits)
  qed
  have unfold: "create_subscription P users_doc clk b w =
      (case create_customer P b w of
         (Inl err, w') \<Rightarrow> (Failure err, w')
       | (Inr customer, w') \<Rightarrow> subscribe_customer P clk ref b customer w')"
    if "users_doc (userId b) = Inr ref" for ref
    using that by (simp add: create_subscription_def resolve_customer_no_id [OF no_id [OF that]])
  note defs = create_customer_eq subscribe_customer_def set_default_and_subscribe_def invoke_eq
    persist_subscription_missing_document
  show ?thesis
  proof (intro conjI allI impI)
    show "is_error_response (fst (create_subscription P users_doc clk b w))"
      and "ledger (snd (create_subscription P users_doc clk b w)) = ledger w"
      using general by simp_all
  next
    fix err assume "users_doc (userId b) = Inl err"
    then show "create_subscription P users_doc clk b w = (Failure err, w)" by (rule inv)
  next
    fix ref err p1
    assume h: "users_doc (userId b) = Inr ref
        \<and> customers_create P (userEmail b) (userName b) (paymentMethodId b) (userId b) (remote w) = (Inl err, p1)"
    then have r: "users_doc (userId b) = Inr ref" by simp
    show "create_subscription P users_doc clk b w =
        (Failure err,
         w\<lparr>remote := p1,
           calls := calls w @
             [(Customers_create (userEmail b) (userName b) (paymentMethodId b) (userId b), False)]\<rparr>)"
      using h by (simp add: unfold [OF r] defs)
  next
    fix ref cust p1 a p2 err p3
    assume h: "users_doc (userId b) = Inr ref
        \<and> customers_create P (userEmail b) (userName b) (paymentMethodId b) (userId b) (remote w) = (Inr cust, p1)
        \<and> paymentMethods_attach P (paymentMethodId b) (customer_id cust) p1 = (a, p2)
        \<and> customers_update P (customer_id cust) (paymentMethodId b) p2 = (Inl err, p3)"
    then have r: "users_doc (userId b) = Inr ref" by simp
    show "create_subscription P users_doc clk b w =
        (Failure err,
         w\<lparr>remote := p3,
           calls := calls w @
             [(Customers_create (userEmail b) (userName b) (paymentMethodId b) (userId b), True),
              (PaymentMethods_attach (paymentMethodId b) (customer_id cust), succeeded a),
              (Customers_update (customer_id cust) (paymentMethodId b), False)]\<rparr>)"
      using h by (simp add: unfold [OF r] defs)
  next
    fix ref cust p1 a p2 u p3 err p4
    assume h: "users_doc (userId b) = Inr ref
        \<and> customers_create P (userEmail b) (userName b) (paymentMethodId b) (userId b) (remote w) = (Inr cust, p1)
        \<and> paymentMethods_attach P (paymentMethodId b) (customer_id cust) p1 = (a, p2)
        \<and> customers_update P (customer_id cust) (paymentMethodId b) p2 = (Inr u, p3)
        \<and> subscriptions_create P (customer_id cust) (priceId b) (userId b) p3 = (Inl err, p4)"
    then have r: "users_doc (userId b) = Inr ref" by simp
    show "create_subscription P users_doc clk b w =
        (Failure err,
         w\<lparr>remote := p4,
           calls := calls w @
             [(Customers_create (userEmail b) (userName b) (paymentMethodId b) (userId b), True),
              (PaymentMethods_attach (paymentMethodId b) (customer_id cust), succeeded a),
              (Customers_update (customer_id cust) (paymentMethodId b), True),
              (Subscriptions_create (customer_id cust) (priceId b) (userId b), False)]\<rparr>)"
      using h by (simp add: unfold [OF r] defs)
  next
    fix ref cust p1 a p2 u p3 sub p4 err
    assume h: "users_doc (userId b) = Inr ref
        \<and> customers_create P (userEmail b) (userName b) (paymentMethodId b) (userId b) (remote w) = (Inr cust, p1)
        \<and> paymentMethods_attach P (paymentMethodId b) (customer_id cust) p1 = (a, p2)
        \<and> customers_update P (customer_id cust) (paymentMethodId b) p2 = (Inr u, p3)
        \<and> subscriptions_create P (customer_id cust) (priceId b) (userId b) p3 = (Inr sub, p4)
        \<and> get_client_secret sub = Inl err"
    then have r: "users_doc (userId b) = Inr ref" by simp
    show "create_subscription P users_doc clk b w =
        (Failure err,
         w\<lparr>remote := p4,
           calls := calls w @
             [(Customers_create (userEmail b) (userName b) (paymentMethodId b) (userId b), True),
              (PaymentMethods_attach (paymentMethodId b) (customer_id cust), succeeded a),
              (Customers_update (customer_id cust) (paymentMethodId b), True),
              (Subscriptions_create (customer_id cust) (priceId b) (userId b), True)]\<rparr>)"
      using h by (simp add: unfold [OF r] defs)
  next
    fix ref cust p1 a p2 u p3 sub p4 cs
    assume h: "users_doc (userId b) = Inr ref
        \<and> customers_create P (userEmail b) (userName b) (paymentMethodId b) (userId b) (remote w) = (Inr cust, p1)
        \<and> paymentMethods_attach P (paymentMethodId b) (customer_id cust) p1 = (a, p2)
        \<and> customers_update P (customer_id cust) (paymentMethodId b) p2 = (Inr u, p3)
        \<and> subscriptions_create P (customer_id cust) (priceId b) (userId b) p3 = (Inr sub, p4)
        \<and> get_client_secret sub = Inr cs"
    then have r: "users_doc (userId b) = Inr ref" by simp
    show "create_subscription P users_doc clk b w =
        (Failure (NotFound ref),
         w\<lparr>remote := p4,
           calls := calls w @
             [(Customers_create (userEmail b) (userName b) (paymentMethodId b) (userId b), True),
              (PaymentMethods_attach (paymentMethodId b) (customer_id cust), succeeded a),
              (Customers_update (customer_id cust) (paymentMethodId b), True),
              (Subscriptions_create (customer_id cust) (priceId b) (userId b), True)]\<rparr>)"
      using h none [OF r] by (simp add: unfold [OF r] defs)
  qed
qed

text \<open>
  C10, as stated ("the persist step throws, the customer and the subscription have been
  created"), fails when the processor rejects the creation of the customer: the call
  answers with the processor's error, and neither a customer nor a subscription has
  been created.
\<close>

theorem create_subscription_missing_document_counterexample:
  "client_doc (userId (sample_body\<lparr>userId := ''u7''\<rparr>)) = Inr [''u7'']
   \<and> ref_get (ledger sample_world) [''u7''] = None
   \<and> create_subscription rejecting_stripe client_doc sample_clock (sample_body\<lparr>userId := ''u7''\<rparr>) sample_world =
       (Failure (StripeError ''No such PaymentMethod''),
        sample_world\<lparr>calls := [(Customers_create ''a@b.com'' ''A'' ''pm_1'' ''u7'', False)]\<rparr>)
   \<and> customers_created [(Customers_create ''a@b.com'' ''A'' ''pm_1'' ''u7'', False)] = 0
   \<and> subscriptions_created [(Customers_create ''a@b.com'' ''A'' ''pm_1'' ''u7'', False)] = 0"
  by (simp add: handler_defs sample_defs rejecting_stripe_def created_simps)

theorem create_subscription_missing_document_witness:
  "ref_get (ledger sample_world) [''u7''] = None
   \<and> is_error_response (fst (create_subscription sample_stripe client_doc sample_clock (sample_body\<lparr>userId := ''u7''\<rparr>) sample_world))
   \<and> ledger (snd (create_subscription sample_stripe client_doc sample_clock (sample_body\<lparr>userId := ''u7''\<rparr>) sample_world))
       = ledger sample_world
   \<and> create_subscription sample_stripe client_doc sample_clock (sample_body\<lparr>userId := ''u7''\<rparr>) sample_world =
       (Failure (NotFound [''u7'']),
        sample_world\<lparr>remote := 2,
          calls :=
            [(Customers_create ''a@b.com'' ''A'' ''pm_1'' ''u7'', True),
             (PaymentMethods_attach ''pm_1'' ''cus_2'', True),
             (Customers_update ''cus_2'' ''pm_1'', True),
             (Subscriptions_create ''cus_2'' ''price_1'' ''u7'', True)]\<rparr>)
   \<and> create_subscription sample_stripe client_doc sample_clock (sample_body\<lparr>userId := ''''\<rparr>) sample_world =
       (Failure (InvalidPath ''''), sample_world)"
proof -
  let ?b = "sample_body\<lparr>userId := ''u7''\<rparr>"
  let ?e = "sample_body\<lparr>userId := ''''\<rparr>"
  have none: "ref_get (ledger sample_world) [''u7''] = None"
    by (simp add: doc_get_def sample_defs)
  have missing: "case client_doc (userId ?b) of Inl err \<Rightarrow> True | Inr ref \<Rightarrow> ref_get (ledger sample_world) ref = None"
    by (simp add: doc_get_def sample_defs)
  have missing_e: "case client_doc (userId ?e) of Inl err \<Rightarrow> True | Inr ref \<Rightarrow> ref_get (ledger sample_world) ref = None"
    by (simp add: sample_defs)
  have ok: "client_doc (userId ?b) = Inr [''u7'']
        \<and> customers_create sample_stripe (userEmail ?b) (userName ?b) (paymentMethodId ?b) (userId ?b) (remote sample_world)
          = (Inr \<lparr>customer_id = ''cus_2''\<rparr>, 1)
        \<and> paymentMethods_attach sample_stripe (paymentMethodId ?b) (customer_id \<lparr>customer_id = ''cus_2''\<rparr>) 1 = (Inr (), 1)
        \<and> customers_update sample_stripe (customer_id \<lparr>customer_id = ''cus_2''\<rparr>) (paymentMethodId ?b) 1 = (Inr (), 1)
        \<and> subscriptions_create sample_stripe (customer_id \<lparr>customer_id = ''cus_2''\<rparr>) (priceId ?b) (userId ?b) 1
          = (Inr sample_subscription, 2)
        \<and> get_client_secret sample_subscription = Inr (Some ''pi_1_secret'')"
    by (simp add: sample_defs get_client_secret_def)
  have inv: "client_doc (userId ?e) = Inl (InvalidPath '''')"
    by (simp add: sample_defs)
  note t = create_subscription_missing_document [where users_doc = client_doc and b = ?b
      and w = sample_world and P = sample_stripe and clk = sample_clock, OF missing]
  note te = create_subscription_missing_document [where users_doc = client_doc and b = ?e
      and w = sample_world and P = sample_stripe and clk = sample_clock, OF missing_e]
  from t have "is_error_response (fst (create_subscription sample_stripe client_doc sample_clock ?b sample_world))
      \<and> ledger (snd (create_subscription sample_stripe client_doc sample_clock ?b sample_world)) = ledger sample_world"
    by blast
  moreover have "create_subscription sample_stripe client_doc sample_clock ?b sample_world =
      (Failure (NotFound [''u7'']),
       sample_world\<lparr>remote := 2,
         calls := calls sample_world @
           [(Customers_create (userEmail ?b) (userName ?b) (paymentMethodId ?b) (userId ?b), True),
            (PaymentMethods_attach (paymentMethodId ?b) (customer_id \<lparr>customer_id = ''cus_2''\<rparr>), succeeded (Inr ())),
            (Customers_update (customer_id \<lparr>customer_id = ''cus_2''\<rparr>) (paymentMethodId ?b), True),
            (Subscriptions_create (customer_id \<lparr>customer_id = ''cus_2''\<rparr>) (priceId ?b) (userId ?b), True)]\<rparr>)"
    by (rule t [THEN conjunct2, THEN conjunct2, THEN conjunct2, THEN conjunct2, THEN conjunct2,
          THEN conjunct2, THEN conjunct2, rule_format, OF ok])
  moreover have "create_subscription sample_stripe client_doc sample_clock ?e sample_world =
      (Failure (InvalidPath ''''), sample_world)"
    by (rule te [THEN conjunct2, THEN conjunct2, THEN conjunct1, rule_format, OF inv])
  ultimately show ?thesis
    using none by (simp add: sample_body_def sample_world_def)
qed

subsection \<open>The payment history\<close>

lemma persist_subscription_history:
  "history_extended (ledger w) (ledger (snd (persist_subscription P clk ref b cust sub cs w)))"
proof (cases "ref_update ref
             (\<lambda>u. u\<lparr>stripeCustomerId := Some (customer_id cust),
                    subscriptionId := Some (subscription_id sub),
                    subscriptionStatus := Some (status sub),
                    subscriptionUpdatedAt := Some (serverTimestamp clk)\<rparr>) (ledger w)")
  case (Inl e)
  then show ?thesis by (simp add: persist_subscription_def history_extended_refl)
next
  case (Inr s')
  then have 1: "history_extended (ledger w) s'"
    by (intro ref_update_users_history [OF _ Inr]) simp
  have "users (ledger (snd (persist_subscription P clk ref b cust sub cs w))) = users s'"
    using Inr save_card_users [of P clk ref b "w\<lparr>ledger := s'\<rparr>"]
    by (auto simp: persist_subscription_def case_prod_beta add_payment_log_users split: sum.splits)
  then have "history_extended s' (ledger (snd (persist_subscription P clk ref b cust sub cs w)))"
    by (rule history_extended_same_users)
  with 1 show ?thesis by (rule history_extended_trans)
qed

lemma subscribe_customer_history:
  "history_extended (ledger w) (ledger (snd (subscribe_customer P clk ref b cust w)))"
proof -
  have "history_extended (ledger w) (ledger (snd (persist_subscription P clk ref b cust sub cs v)))"
    if "ledger v = ledger w" for v sub cs
    using persist_subscription_history [of v P clk ref b cust sub cs] that by simp
  then show ?thesis
    by (simp add: subscribe_customer_def set_default_and_subscribe_def invoke_eq case_prod_beta
        history_extended_refl split: sum.splits)
qed

lemma create_subscription_history:
  "history_extended (ledger w) (ledger (snd (create_subscription P users_doc clk b w)))"
proof (cases "users_doc (userId b)")
  case (Inl err)
  then show ?thesis by (simp add: create_subscription_def history_extended_refl)
next
  case (Inr ref)
  then show ?thesis
    using subscribe_customer_history [of "snd (resolve_customer P ref b w)" P clk ref b]
    by (simp add: create_subscription_def case_prod_beta resolve_customer_ledger history_extended_refl
        split: sum.splits)
qed

lemma cancel_subscription_history:
  "history_extended (ledger w) (ledger (snd (cancel_subscription P users_doc clk b w)))"
proof -
  have "history_extended (ledger w) s'" if "ref_update ref (canceling clk) (ledger w) = Inr s'" for s' ref
    by (rule ref_update_users_history [OF _ that]) (simp add: canceling_def)
  then show ?thesis
    by (simp add: cancel_subscription_def invoke_eq case_prod_beta history_extended_refl
        split: sum.splits)
qed

lemma list_payment_methods_ledger: "ledger (snd (list_payment_methods P users_doc uid w)) = ledger w"
  by (simp add: list_payment_methods_def invoke_eq case_prod_beta Let_def split: option.splits sum.splits)

lemma payment_history_only_extended_step:
  "history_extended (ledger w) (ledger (snd (handle P users_doc JSON_parse webhookSecret clk req w)))"
  by (cases req)
     (simp_all add: create_subscription_history cancel_subscription_history webhook_history
        list_payment_methods_ledger history_extended_refl case_prod_beta)

text \<open>
  C9. Whatever the request (create-subscription, cancel-subscription, a webhook delivery,
  the listing of payment methods) and whatever its outcome, the store after it holds the
  same user documents under the same ids, and the payment history of each document
  starts with the history it had before: entries are added at the end, none is changed
  or removed.
\<close>

theorem payment_history_only_extended:
  "history_extended (ledger w) (ledger (snd (handle P users_doc JSON_parse webhookSecret clk req w)))
   \<and> map fst (users (ledger (snd (handle P users_doc JSON_parse webhookSecret clk req w)))) = map fst (users (ledger w))
   \<and> (\<forall>k d. doc_get (ledger w) k = Some d \<longrightarrow>
         (\<exists>d'. doc_get (ledger (snd (handle P users_doc JSON_parse webhookSecret clk req w))) k = Some d'
              \<and> prefix (paymentHistory d) (paymentHistory d')))"
proof -
  have ext: "history_extended (ledger w) (ledger (snd (handle P users_doc JSON_parse webhookSecret clk req w)))"
    by (rule payment_history_only_extended_step)
  show ?thesis
    using ext history_extended_keys [OF ext] history_extended_doc_get [OF ext] by blast
qed

theorem payment_history_only_extended_witness:
  "doc_get (ledger sample_world) ''u1'' = Some (blank_user\<lparr>stripeCustomerId := Some ''cus_1''\<rparr>)
   \<and> (\<exists>d'. doc_get (ledger (snd (handle sample_stripe client_doc sample_decode (Some ''whsec'') sample_clock
                (Webhook ''paid'' ''whsec'') sample_world))) ''u1'' = Some d'
          \<and> prefix (paymentHistory (blank_user\<lparr>stripeCustomerId := Some ''cus_1''\<rparr>)) (paymentHistory d'))"
proof -
  have doc: "doc_get (ledger sample_world) ''u1'' = Some (blank_user\<lparr>stripeCustomerId := Some ''cus_1''\<rparr>)"
    by (simp add: doc_get_def sample_defs)
  show ?thesis
    using doc
      payment_history_only_extended [where w = sample_world and P = sample_stripe
        and users_doc = client_doc and JSON_parse = sample_decode and webhookSecret = "Some ''whsec''"
        and clk = sample_clock and req = "Webhook ''paid'' ''whsec''"]
    by blast
qed

text \<open>The same over any sequence of requests.\<close>

lemma serve_history_extended:
  "history_extended (ledger w) (ledger (serve P users_doc JSON_parse webhookSecret reqs w))"
proof (induction reqs arbitrary: w)
  case Nil
  show ?case by (simp add: history_extended_refl)
next
  case (Cons cr reqs)
  obtain clk req where cr: "cr = (clk, req)" by (cases cr)
  have step: "history_extended (ledger w) (ledger (snd (handle P users_doc JSON_parse webhookSecret clk req w)))"
    by (rule payment_history_only_extended_step)
  show ?case
    unfolding cr serve.simps
    by (rule history_extended_trans [OF step Cons.IH])
qed

text \<open>Unique document ids are an invariant of the system.\<close>

lemma handle_wf_store:
  assumes "wf_store (ledger w)"
  shows "wf_store (ledger (snd (handle P users_doc JSON_parse webhookSecret clk req w)))"
  using assms
    history_extended_keys [OF payment_history_only_extended_step [of w P users_doc JSON_parse webhookSecret clk req]]
  by (simp add: wf_store_def)

text \<open>The listing of payment methods answers with the error of the lookup when the user id is not a document path.\<close>

lemma list_payment_methods_invalid_path:
  assumes "users_doc uid = Inl err"
  shows "list_payment_methods P users_doc uid w = (Failure err, w)"
  using assms by (simp add: list_payment_methods_def)

end
